theory Spec2Isabelle
  imports Complex_Main "HOL-Library.Sublist"
begin

section \<open>Values, objects and the store\<close>

text \<open>
  The validator works on JavaScript values. Primitive values are modelled by value;
  objects and arrays live in a store and are referred to by address, because
  \<open>validate\<close> writes through object references (\<open>set\<close> in \<open>utils/get.ts\<close>).

  Numbers are exact rationals with the three non-finite values; the rounding of
  binary64 and the sign of zero are not represented. Strings are lists of code units
  below 256. An object holds its own data properties in insertion order; an array is
  an object with a \<open>length\<close>. Inherited members (the prototype chain) and the
  \<open>length\<close> pseudo-property as a path segment are outside the model: a path is read and
  written as the source does only when none of its segments is such a name (the predicate
  \<open>Inherited\<close> of the surroundings, below).
\<close>

datatype jsnum = NaN | NegInf | Fin rat | PosInf

datatype jsval = Undefined | Null | Bool bool | Num jsnum | Str string | Ref nat

datatype jsobj = JSObj (alen: "nat option") (props: "(string \<times> jsval) list")

type_synonym heap = "jsobj list"

definition empty_object :: jsobj where
  "empty_object = JSObj None []"

definition empty_array :: jsobj where
  "empty_array = JSObj (Some 0) []"

definition obj_at :: "heap \<Rightarrow> nat \<Rightarrow> jsobj" where
  "obj_at h a = (if a < length h then h ! a else empty_object)"

text \<open>\<open>m[k] = v\<close> on insertion-ordered entries: an existing key keeps its place.\<close>

fun put :: "string \<Rightarrow> 'v \<Rightarrow> (string \<times> 'v) list \<Rightarrow> (string \<times> 'v) list" where
  "put k v [] = [(k, v)]"
| "put k v ((k', v') # ps) = (if k' = k then (k, v) # ps else (k', v') # put k v ps)"

subsection \<open>Decimal strings and array indices\<close>

definition is_digit :: "char \<Rightarrow> bool" where
  "is_digit c = (c \<in> set ''0123456789'')"

definition digit_val :: "char \<Rightarrow> nat" where
  "digit_val c = (of_char c - 48)"

definition digits_val :: "string \<Rightarrow> nat" where
  "digits_val s = foldl (\<lambda>n c. 10 * n + digit_val c) 0 s"

definition digit_char :: "nat \<Rightarrow> char" where
  "digit_char d = ''0123456789'' ! d"

fun decimal :: "nat \<Rightarrow> string" where
  "decimal n = (if n < 10 then [digit_char n] else decimal (n div 10) @ [digit_char (n mod 10)])"

declare decimal.simps [simp del]

text \<open>\<open>/^\d+$/.test(s)\<close>\<close>

definition all_digits :: "string \<Rightarrow> bool" where
  "all_digits s = (s \<noteq> [] \<and> list_all is_digit s)"

text \<open>
  An array index is a canonical decimal string below \<open>2^32 - 1\<close>. Such keys extend an
  array's length and come first, in ascending order, when an object's keys are listed.
\<close>

definition array_index :: "string \<Rightarrow> nat option" where
  "array_index s =
     (if all_digits s \<and> (s = ''0'' \<or> hd s \<noteq> CHR ''0'') \<and> digits_val s < 4294967295
      then Some (digits_val s) else None)"

subsection \<open>Property access\<close>

definition has_own :: "heap \<Rightarrow> nat \<Rightarrow> string \<Rightarrow> bool" where
  "has_own h a k = (map_of (props (obj_at h a)) k \<noteq> None)"

definition prop_get :: "heap \<Rightarrow> nat \<Rightarrow> string \<Rightarrow> jsval" where
  "prop_get h a k = (case map_of (props (obj_at h a)) k of None \<Rightarrow> Undefined | Some v \<Rightarrow> v)"

definition obj_put :: "string \<Rightarrow> jsval \<Rightarrow> jsobj \<Rightarrow> jsobj" where
  "obj_put k v ob =
     JSObj (case alen ob of
              None \<Rightarrow> None
            | Some n \<Rightarrow> (case array_index k of None \<Rightarrow> Some n | Some i \<Rightarrow> Some (max n (Suc i))))
           (put k v (props ob))"

definition prop_set :: "heap \<Rightarrow> nat \<Rightarrow> string \<Rightarrow> jsval \<Rightarrow> heap" where
  "prop_set h a k v = h[a := obj_put k v (obj_at h a)]"

definition is_object :: "jsval \<Rightarrow> bool" where
  "is_object v = (case v of Ref _ \<Rightarrow> True | _ \<Rightarrow> False)"

definition isArray :: "heap \<Rightarrow> jsval \<Rightarrow> bool" where
  "isArray h v = (case v of Ref a \<Rightarrow> alen (obj_at h a) \<noteq> None | _ \<Rightarrow> False)"

text \<open>\<open>Object.entries\<close>: array-index keys ascending, then the other keys as inserted.\<close>

definition Object_entries :: "jsobj \<Rightarrow> (string \<times> jsval) list" where
  "Object_entries ob =
     sort_key (\<lambda>(k, v). the (array_index k)) (filter (\<lambda>(k, v). array_index k \<noteq> None) (props ob))
     @ filter (\<lambda>(k, v). array_index k = None) (props ob)"

text \<open>The same order on the entries of any plain object, whatever its values are.\<close>

definition own_entries :: "(string \<times> 'a) list \<Rightarrow> (string \<times> 'a) list" where
  "own_entries ps =
     sort_key (\<lambda>(k, v). the (array_index k)) (filter (\<lambda>(k, v). array_index k \<noteq> None) ps)
     @ filter (\<lambda>(k, v). array_index k = None) ps"

text \<open>\<open>Array.prototype.forEach\<close>: the present indices below the length, ascending.\<close>

definition array_items :: "jsobj \<Rightarrow> (nat \<times> jsval) list" where
  "array_items ob =
     List.map_filter
       (\<lambda>i. case map_of (props ob) (decimal i) of None \<Rightarrow> None | Some v \<Rightarrow> Some (i, v))
       [0..<(case alen ob of None \<Rightarrow> 0 | Some n \<Rightarrow> n)]"

section \<open>utils/is-empty.ts\<close>

definition is_ws :: "char \<Rightarrow> bool" where
  "is_ws c = (of_char c \<in> {9, 10, 11, 12, 13, 32, 160 :: nat})"

definition trim :: "string \<Rightarrow> string" where
  "trim s = rev (dropWhile is_ws (rev (dropWhile is_ws s)))"

definition isEmpty :: "heap \<Rightarrow> jsval \<Rightarrow> bool" where
  "isEmpty h v =
     (case v of
        Null \<Rightarrow> True
      | Undefined \<Rightarrow> True
      | Str s \<Rightarrow> trim s = []
      | Ref a \<Rightarrow> (case alen (obj_at h a) of Some n \<Rightarrow> n = 0 | None \<Rightarrow> False)
      | _ \<Rightarrow> False)"

section \<open>utils/get.ts\<close>

text \<open>\<open>path.split('.')\<close>\<close>

fun split_dot :: "string \<Rightarrow> string list" where
  "split_dot [] = [[]]"
| "split_dot (c # cs) =
     (if c = CHR ''.'' then [] # split_dot cs
      else (case split_dot cs of [] \<Rightarrow> [[c]] | w # ws \<Rightarrow> (c # w) # ws))"

text \<open>The loop of \<open>get\<close>: a step from anything but an object yields \<open>undefined\<close>.\<close>

fun walk :: "heap \<Rightarrow> jsval \<Rightarrow> string list \<Rightarrow> jsval" where
  "walk h cur [] = cur"
| "walk h cur (p # ps) = (case cur of Ref a \<Rightarrow> walk h (prop_get h a p) ps | _ \<Rightarrow> Undefined)"

definition get :: "heap \<Rightarrow> jsval \<Rightarrow> string \<Rightarrow> jsval" where
  "get h data path = (if path = [] then Undefined else walk h data (split_dot path))"

text \<open>
  The loop of \<open>set\<close>, on the remaining segments. A segment that is missing, or holds
  anything but an object, gets a fresh container: an array when the next segment is
  all digits. The last segment receives the value. (\<open>split\<close> never returns an empty
  list, so the first equation is not reached from \<open>set_path\<close>.)
\<close>

fun set_loop :: "heap \<Rightarrow> nat \<Rightarrow> string list \<Rightarrow> jsval \<Rightarrow> heap" where
  "set_loop h cur [] v = h"
| "set_loop h cur [p] v = prop_set h cur p v"
| "set_loop h cur (p # q # ps) v =
     (if \<not> has_own h cur p \<or> \<not> is_object (prop_get h cur p)
      then let a = length h;
               h1 = h @ [if all_digits q then empty_array else empty_object];
               h2 = prop_set h1 cur p (Ref a)
           in set_loop h2 a (q # ps) v
      else (case prop_get h cur p of Ref a \<Rightarrow> set_loop h a (q # ps) v | _ \<Rightarrow> h))"

definition set_path :: "heap \<Rightarrow> nat \<Rightarrow> string \<Rightarrow> jsval \<Rightarrow> heap" where
  "set_path h target path v = (if path = [] then h else set_loop h target (split_dot path) v)"

section \<open>wildcard.ts\<close>

definition includes_star :: "string \<Rightarrow> bool" where
  "includes_star s = (CHR ''*'' \<in> set s)"

definition isWildcardPattern :: "string \<Rightarrow> bool" where
  "isWildcardPattern path = includes_star path"

text \<open>
  The result of \<open>expandWildcards\<close> is a \<open>Map\<close>: its entries in insertion order, modelled
  by the list of pairs that \<open>put\<close> maintains.
\<close>

fun expandRecursive ::
  "heap \<Rightarrow> string list \<Rightarrow> jsval \<Rightarrow> string \<Rightarrow> (string \<times> jsval) list \<Rightarrow> (string \<times> jsval) list"
where
  "expandRecursive h [] current path result = put (drop 1 path) current result"
| "expandRecursive h (part # rest) current path result =
     (if part = ''*'' then
        (if isArray h current then
           (case current of
              Ref a \<Rightarrow>
                fold (\<lambda>(i, item) res. expandRecursive h rest item (path @ ''.'' @ decimal i) res)
                     (array_items (obj_at h a)) result
            | _ \<Rightarrow> result)
         else (case current of
              Ref a \<Rightarrow>
                fold (\<lambda>(key, value) res. expandRecursive h rest value (path @ ''.'' @ key) res)
                     (Object_entries (obj_at h a)) result
            | _ \<Rightarrow> result))
      else expandRecursive h rest
             (case current of Ref a \<Rightarrow> prop_get h a part | _ \<Rightarrow> Undefined)
             (path @ ''.'' @ part) result)"

definition expandWildcards :: "heap \<Rightarrow> string \<Rightarrow> jsval \<Rightarrow> (string \<times> jsval) list" where
  "expandWildcards h pattern data =
     (if \<not> includes_star pattern then put pattern (get h data pattern) []
      else expandRecursive h (split_dot pattern) data [] [])"


section \<open>types.ts\<close>

text \<open>
  Rule specifications are plain data that the engine only reads. They are modelled as
  values of their own, never stored in the validated records: an array or object of
  a specification is never the same object as one of the record.
\<close>

datatype raw =
    RUndef | RNull | RBool bool | RNum jsnum | RStr string
  | RArr "raw list" | RObj "(string \<times> raw) list" | RRegExp string string

datatype ValidationError = ValidationError (key: string) (error_params: "(string \<times> jsval) list")

type_synonym validate_fn =
  "heap \<Rightarrow> jsval \<Rightarrow> raw list \<Rightarrow> jsval \<Rightarrow> string \<Rightarrow> ValidationError option"

text \<open>
  A rule handler. Its \<open>validate\<close> function reads the record in the store and returns an
  error or nothing; the two flags are optional.
\<close>

record RuleHandler =
  name :: string
  handler_validate :: validate_fn
  bailOnFailure :: "bool option"
  skipIfEmpty :: "bool option"

record ParsedRule =
  rule_name :: string
  params :: "raw list"
  handler :: RuleHandler

record ParsedConditionalRule =
  condition :: raw
  thenRules :: "ParsedRule list"
  elseRules :: "ParsedRule list option"

datatype ParsedRuleItem = Simple ParsedRule | Conditional ParsedConditionalRule

record ValidationResult =
  valid :: bool
  errors :: "(string \<times> ValidationError list) list"
  validated :: jsval

section \<open>errors.ts\<close>

text \<open>
  The exceptions the parser throws. \<open>InvalidRuleNameException\<close> carries the offending
  entry (the source stores its string rendering) and the reason; \<open>UnknownRuleException\<close>
  carries the name as its message spells it. \<open>TypeError\<close> is what the runtime throws
  when a branch of a conditional is not a list or a name is \<open>undefined\<close> or \<open>null\<close>.
  An array entry whose first element is itself an array or an object is outside the type
  \<open>Rule\<close>; the source converts that element to a string, which the model does not
  represent, and the model reports \<open>NotARule\<close>.
\<close>

datatype error =
    InvalidRuleNameException raw string
  | UnknownRuleException string
  | TypeError
  | NotARule raw


section \<open>The host language\<close>

text \<open>
  What the engine takes from its surroundings and the model does not define: the
  conversion of a string to a number and of a number to a string, the primitive
  (a string) that a relational operator obtains from an object of the record or of a
  specification, the regular-expression engine, and the bodies of the leaf rules that
  are not modelled below. Every function of the engine that needs them takes them as
  the parameter \<open>env\<close>. \<open>Inherited\<close> tells the names that an object or an array of the
  host answers to without holding them as data properties: the members of
  \<open>Object.prototype\<close> and \<open>Array.prototype\<close> (\<open>__proto__\<close>, \<open>constructor\<close>, \<open>toString\<close> and
  so on) and the \<open>length\<close> of an array.
\<close>

record env =
  StringToNumber :: "string \<Rightarrow> jsnum"
  NumberToString :: "jsnum \<Rightarrow> string"
  HeapToPrimitive :: "heap \<Rightarrow> nat \<Rightarrow> string"
  SpecToPrimitive :: "raw \<Rightarrow> string"
  RegExp_test :: "raw \<Rightarrow> string \<Rightarrow> bool"
  leaf_validate :: "string \<Rightarrow> validate_fn"
  Inherited :: "string \<Rightarrow> bool"

definition typeof :: "jsval \<Rightarrow> string" where
  "typeof v =
     (case v of
        Undefined \<Rightarrow> ''undefined''
      | Null \<Rightarrow> ''object''
      | Bool _ \<Rightarrow> ''boolean''
      | Num _ \<Rightarrow> ''number''
      | Str _ \<Rightarrow> ''string''
      | Ref _ \<Rightarrow> ''object'')"

text \<open>\<open>a === b\<close> between a value of the record and a value of a specification.\<close>

definition strict_eq :: "jsval \<Rightarrow> raw \<Rightarrow> bool" where
  "strict_eq a b =
     (case (a, b) of
        (Undefined, RUndef) \<Rightarrow> True
      | (Null, RNull) \<Rightarrow> True
      | (Bool x, RBool y) \<Rightarrow> x = y
      | (Num x, RNum y) \<Rightarrow> x = y \<and> x \<noteq> NaN
      | (Str x, RStr y) \<Rightarrow> x = y
      | _ \<Rightarrow> False)"

text \<open>\<open>Array.prototype.includes\<close> compares with SameValueZero: \<open>NaN\<close> is found.\<close>

definition same_value_zero :: "jsval \<Rightarrow> raw \<Rightarrow> bool" where
  "same_value_zero a b = (strict_eq a b \<or> (a = Num NaN \<and> b = RNum NaN))"

definition array_includes :: "raw list \<Rightarrow> jsval \<Rightarrow> bool" where
  "array_includes xs v = list_ex (same_value_zero v) xs"

text \<open>\<open>s.includes(t)\<close> on strings: \<open>t\<close> occurs in \<open>s\<close> at some position.\<close>

definition string_includes :: "string \<Rightarrow> string \<Rightarrow> bool" where
  "string_includes s t = list_ex (\<lambda>i. take (length t) (drop i s) = t) [0..<Suc (length s)]"

definition to_primitive :: "env \<Rightarrow> heap \<Rightarrow> jsval \<Rightarrow> jsval" where
  "to_primitive rt h v = (case v of Ref a \<Rightarrow> Str (HeapToPrimitive rt h a) | _ \<Rightarrow> v)"

definition spec_to_primitive :: "env \<Rightarrow> raw \<Rightarrow> jsval" where
  "spec_to_primitive rt r =
     (case r of
        RUndef \<Rightarrow> Undefined
      | RNull \<Rightarrow> Null
      | RBool b \<Rightarrow> Bool b
      | RNum n \<Rightarrow> Num n
      | RStr s \<Rightarrow> Str s
      | _ \<Rightarrow> Str (SpecToPrimitive rt r))"

text \<open>\<open>ToString\<close> of a value; an object is first converted to a primitive.\<close>

definition ToString :: "env \<Rightarrow> heap \<Rightarrow> jsval \<Rightarrow> string" where
  "ToString rt h v =
     (case v of
        Undefined \<Rightarrow> ''undefined''
      | Null \<Rightarrow> ''null''
      | Bool b \<Rightarrow> (if b then ''true'' else ''false'')
      | Num n \<Rightarrow> NumberToString rt n
      | Str s \<Rightarrow> s
      | Ref a \<Rightarrow> HeapToPrimitive rt h a)"

text \<open>\<open>ToNumber\<close> of a primitive.\<close>

definition ToNumber :: "env \<Rightarrow> jsval \<Rightarrow> jsnum" where
  "ToNumber rt v =
     (case v of
        Undefined \<Rightarrow> NaN
      | Null \<Rightarrow> Fin 0
      | Bool b \<Rightarrow> Fin (if b then 1 else 0)
      | Num n \<Rightarrow> n
      | Str s \<Rightarrow> StringToNumber rt s
      | Ref _ \<Rightarrow> NaN)"

text \<open>Strings compare by code units; numbers by value, with no answer on \<open>NaN\<close>.\<close>

fun str_lt :: "string \<Rightarrow> string \<Rightarrow> bool" where
  "str_lt [] [] = False"
| "str_lt [] (y # ys) = True"
| "str_lt (x # xs) [] = False"
| "str_lt (x # xs) (y # ys) = (if x = y then str_lt xs ys else (of_char x :: nat) < of_char y)"

fun num_lt :: "jsnum \<Rightarrow> jsnum \<Rightarrow> bool option" where
  "num_lt NaN _ = None"
| "num_lt _ NaN = None"
| "num_lt (Fin x) (Fin y) = Some (x < y)"
| "num_lt NegInf NegInf = Some False"
| "num_lt NegInf _ = Some True"
| "num_lt _ NegInf = Some False"
| "num_lt PosInf _ = Some False"
| "num_lt _ PosInf = Some True"

text \<open>
  The comparison behind \<open><\<close>, \<open>>\<close>, \<open><=\<close> and \<open>>=\<close>, on primitives: two strings are
  compared as strings, anything else is converted to numbers.
\<close>

definition IsLessThan :: "env \<Rightarrow> jsval \<Rightarrow> jsval \<Rightarrow> bool option" where
  "IsLessThan rt px py =
     (case (px, py) of
        (Str a, Str b) \<Rightarrow> Some (str_lt a b)
      | _ \<Rightarrow> num_lt (ToNumber rt px) (ToNumber rt py))"

section \<open>condition.ts\<close>

definition compare :: "env \<Rightarrow> heap \<Rightarrow> jsval \<Rightarrow> raw \<Rightarrow> raw \<Rightarrow> bool" where
  "compare rt h a op b =
     (let pa = to_primitive rt h a; pb = spec_to_primitive rt b in
      if op = RStr ''='' then strict_eq a b
      else if op = RStr ''!='' then \<not> strict_eq a b
      else if op = RStr ''>'' then IsLessThan rt pb pa = Some True
      else if op = RStr ''>='' then IsLessThan rt pa pb = Some False
      else if op = RStr ''<'' then IsLessThan rt pa pb = Some True
      else if op = RStr ''<='' then IsLessThan rt pb pa = Some False
      else False)"

text \<open>An element of a tuple, \<open>undefined\<close> when the tuple is too short.\<close>

definition item :: "raw list \<Rightarrow> nat \<Rightarrow> raw" where
  "item xs i = (if i < length xs then xs ! i else RUndef)"

definition value_length :: "heap \<Rightarrow> jsval \<Rightarrow> nat" where
  "value_length h v =
     (case v of
        Str s \<Rightarrow> length s
      | Ref a \<Rightarrow> (case alen (obj_at h a) of Some n \<Rightarrow> n | None \<Rightarrow> 0)
      | _ \<Rightarrow> 0)"

text \<open>\<open>args\<close> are the elements of the condition after its subject.\<close>

definition evaluateSelfCondition :: "env \<Rightarrow> heap \<Rightarrow> string \<Rightarrow> raw list \<Rightarrow> jsval \<Rightarrow> bool" where
  "evaluateSelfCondition rt h subject args v =
     (if subject = ''@empty'' then isEmpty h v
      else if subject = ''@filled'' then \<not> isEmpty h v
      else if subject = ''@length'' then
        compare rt h (Num (Fin (of_nat (value_length h v)))) (item args 0) (item args 1)
      else if subject = ''@value'' then compare rt h v (item args 0) (item args 1)
      else if subject = ''@type'' then
        (if item args 0 = RStr ''array'' then isArray h v else item args 0 = RStr (typeof v))
      else if subject = ''@matches'' then
        (case v of Str s \<Rightarrow> RegExp_test rt (item args 0) s | _ \<Rightarrow> False)
      else False)"

text \<open>
  \<open>expected.includes(value)\<close>: on a list \<open>Array.prototype.includes\<close>, on a string
  \<open>String.prototype.includes\<close>, which looks for the value converted to a string. Any
  other \<open>expected\<close> has no such method; the source throws there and the model answers
  \<open>False\<close>.
\<close>

definition includes_value :: "env \<Rightarrow> heap \<Rightarrow> raw \<Rightarrow> jsval \<Rightarrow> bool" where
  "includes_value rt h expected v =
     (case expected of
        RArr xs \<Rightarrow> array_includes xs v
      | RStr s \<Rightarrow> string_includes s (ToString rt h v)
      | _ \<Rightarrow> False)"

definition evaluateFieldCondition :: "env \<Rightarrow> heap \<Rightarrow> string \<Rightarrow> raw list \<Rightarrow> jsval \<Rightarrow> bool" where
  "evaluateFieldCondition rt h field args data =
     (let v = get h data field; op = item args 0 in
      if op = RStr ''filled'' then \<not> isEmpty h v
      else if op = RStr ''empty'' then isEmpty h v
      else if op = RStr ''in'' then includes_value rt h (item args 1) v
      else if op = RStr ''not_in'' then \<not> includes_value rt h (item args 1) v
      else compare rt h v op (item args 1))"

text \<open>
  A condition is a tuple whose first element selects the kind. The empty tuple reaches
  \<open>compare\<close> with an undefined operator, which is false. A condition of any other shape
  is outside the type \<open>Condition\<close>; the model answers \<open>False\<close> on it.
\<close>

fun evaluateCondition :: "env \<Rightarrow> heap \<Rightarrow> raw \<Rightarrow> jsval \<Rightarrow> jsval \<Rightarrow> bool" where
  "evaluateCondition rt h (RArr (RStr subject # args)) currentValue allData =
     (if subject = ''and'' then list_all (\<lambda>c. evaluateCondition rt h c currentValue allData) args
      else if subject = ''or'' then list_ex (\<lambda>c. evaluateCondition rt h c currentValue allData) args
      else if take 1 subject = ''@'' then evaluateSelfCondition rt h subject args currentValue
      else evaluateFieldCondition rt h subject args allData)"
| "evaluateCondition rt h _ currentValue allData = False"


section \<open>rules/presence.ts and rules/type-checks.ts\<close>

definition field_error :: "string \<Rightarrow> string \<Rightarrow> ValidationError" where
  "field_error k field = ValidationError k [(''field'', Str field)]"

definition requiredRule :: RuleHandler where
  "requiredRule =
     \<lparr> name = ''required'',
       handler_validate = (\<lambda>h v ps data field.
          if isEmpty h v then Some (field_error ''validation.required'' field) else None),
       bailOnFailure = Some True,
       skipIfEmpty = Some False \<rparr>"

definition nullableRule :: RuleHandler where
  "nullableRule =
     \<lparr> name = ''nullable'',
       handler_validate = (\<lambda>h v ps data field. None),
       bailOnFailure = Some False,
       skipIfEmpty = Some False \<rparr>"

definition filledRule :: RuleHandler where
  "filledRule =
     \<lparr> name = ''filled'',
       handler_validate = (\<lambda>h v ps data field.
          if v = Undefined then None
          else if isEmpty h v then Some (field_error ''validation.filled'' field)
          else None),
       bailOnFailure = Some True,
       skipIfEmpty = Some False \<rparr>"

definition presentRule :: RuleHandler where
  "presentRule =
     \<lparr> name = ''present'',
       handler_validate = (\<lambda>h v ps data field.
          if v = Undefined then Some (field_error ''validation.present'' field) else None),
       bailOnFailure = Some True,
       skipIfEmpty = Some False \<rparr>"

definition stringRule :: RuleHandler where
  "stringRule =
     \<lparr> name = ''string'',
       handler_validate = (\<lambda>h v ps data field.
          if typeof v \<noteq> ''string'' then Some (field_error ''validation.string'' field) else None),
       bailOnFailure = None,
       skipIfEmpty = None \<rparr>"

text \<open>
  \<open>parseInt(s, 10)\<close>: leading white space, a sign, then the longest run of digits;
  \<open>None\<close> stands for \<open>NaN\<close>.
\<close>

definition parseInt10 :: "string \<Rightarrow> int option" where
  "parseInt10 s =
     (let s1 = dropWhile is_ws s;
          neg = (take 1 s1 = ''-'');
          s2 = (if take 1 s1 = ''-'' \<or> take 1 s1 = ''+'' then drop 1 s1 else s1);
          ds = takeWhile is_digit s2
      in if ds = [] then None
         else Some (if neg then - int (digits_val ds) else int (digits_val ds)))"

definition isInteger :: "jsval \<Rightarrow> bool" where
  "isInteger v = (case v of Num (Fin q) \<Rightarrow> q = of_int \<lfloor>q\<rfloor> | _ \<Rightarrow> False)"

definition integerRule :: "env \<Rightarrow> RuleHandler" where
  "integerRule rt =
     \<lparr> name = ''integer'',
       handler_validate = (\<lambda>h v ps data field.
          if (case v of
                Str s \<Rightarrow> (case parseInt10 s of
                            None \<Rightarrow> False
                          | Some n \<Rightarrow> NumberToString rt (Fin (of_int n)) = trim s)
              | _ \<Rightarrow> False)
          then None
          else if typeof v = ''number'' \<and> isInteger v then None
          else Some (field_error ''validation.integer'' field)),
       bailOnFailure = None,
       skipIfEmpty = None \<rparr>"

definition booleanRule :: RuleHandler where
  "booleanRule =
     \<lparr> name = ''boolean'',
       handler_validate = (\<lambda>h v ps data field.
          if typeof v = ''boolean'' then None
          else if array_includes
                    [RBool True, RBool False, RNum (Fin 0), RNum (Fin 1),
                     RStr ''0'', RStr ''1'', RStr ''true'', RStr ''false''] v
          then None
          else Some (field_error ''validation.boolean'' field)),
       bailOnFailure = None,
       skipIfEmpty = None \<rparr>"

definition arrayRule :: RuleHandler where
  "arrayRule =
     \<lparr> name = ''array'',
       handler_validate = (\<lambda>h v ps data field.
          if \<not> isArray h v then Some (field_error ''validation.array'' field) else None),
       bailOnFailure = None,
       skipIfEmpty = None \<rparr>"

text \<open>A leaf rule whose body is taken from the surroundings; it declares no flag.\<close>

definition leafRule :: "env \<Rightarrow> string \<Rightarrow> RuleHandler" where
  "leafRule rt nm =
     \<lparr> name = nm, handler_validate = leaf_validate rt nm,
       bailOnFailure = None, skipIfEmpty = None \<rparr>"

section \<open>rules/index.ts\<close>

text \<open>The registry is a \<open>Map\<close> from names to handlers; \<open>registerRule\<close> may extend it.\<close>

type_synonym registry = "(string \<times> RuleHandler) list"

definition registerRule :: "RuleHandler \<Rightarrow> registry \<Rightarrow> registry" where
  "registerRule hnd reg = put (name hnd) hnd reg"

definition getRule :: "registry \<Rightarrow> string \<Rightarrow> RuleHandler option" where
  "getRule reg nm = map_of reg nm"

definition builtInRules :: "env \<Rightarrow> RuleHandler list" where
  "builtInRules rt =
     [requiredRule, nullableRule, filledRule, presentRule,
      stringRule, integerRule rt, leafRule rt ''numeric'', booleanRule, arrayRule]
     @ map (leafRule rt)
         [''min'', ''max'', ''between'', ''regex'', ''not_regex'', ''alpha'', ''alpha_num'',
          ''alpha_dash'', ''lowercase'', ''uppercase'', ''starts_with'', ''ends_with'',
          ''contains'',
          ''gt'', ''gte'', ''lt'', ''lte'',
          ''distinct'',
          ''email'', ''url'', ''ip'', ''uuid'', ''json'', ''date'', ''date_format'', ''after'',
          ''before'',
          ''in'', ''not_in'', ''same'', ''different'', ''confirmed'',
          ''oib'', ''phone'', ''iban'', ''vat_eu'']"

definition ruleRegistry :: "env \<Rightarrow> registry" where
  "ruleRegistry rt = fold registerRule (builtInRules rt) []"

section \<open>parser.ts\<close>

definition MAX_LENGTH :: nat where
  "MAX_LENGTH = 1024"

definition is_lower :: "char \<Rightarrow> bool" where
  "is_lower c = (97 \<le> (of_char c :: nat) \<and> (of_char c :: nat) \<le> 122)"

text \<open>\<open>/^[a-z][a-z0-9_]*$/.test(name)\<close>\<close>

definition NAME_PATTERN :: "string \<Rightarrow> bool" where
  "NAME_PATTERN s =
     (case s of
        [] \<Rightarrow> False
      | c # cs \<Rightarrow> is_lower c \<and> list_all (\<lambda>x. is_lower x \<or> is_digit x \<or> x = CHR ''_'') cs)"

definition validateRuleName :: "string \<Rightarrow> error + unit" where
  "validateRuleName nm =
     (if length nm > MAX_LENGTH then
        Inl (InvalidRuleNameException (RStr nm) ''Rule name exceeds maximum length of 1024'')
      else if \<not> NAME_PATTERN nm then
        Inl (InvalidRuleNameException (RStr nm)
          ''Rule name must start with a lowercase letter and contain only lowercase letters, numbers, and underscores'')
      else Inr ())"

text \<open>The part of \<open>parseSimpleRule\<close> after the name and parameters are known.\<close>

definition resolveRule :: "registry \<Rightarrow> string \<Rightarrow> raw list \<Rightarrow> error + ParsedRule" where
  "resolveRule reg nm ps =
     (case validateRuleName nm of
        Inl e \<Rightarrow> Inl e
      | Inr _ \<Rightarrow>
          (case getRule reg nm of
             None \<Rightarrow> Inl (UnknownRuleException nm)
           | Some hnd \<Rightarrow> Inr \<lparr> rule_name = nm, params = ps, handler = hnd \<rparr>))"

text \<open>
  \<open>parseSimpleRule\<close>. The name of an array entry is its first element, whatever it is:
  \<open>undefined\<close> (also of the empty array) and \<open>null\<close> have no \<open>length\<close>, a number or a
  regular expression never matches the pattern, and \<open>true\<close> and \<open>false\<close> match it but
  are no keys of the registry.
\<close>

definition parseSimpleRule :: "registry \<Rightarrow> raw \<Rightarrow> error + ParsedRule" where
  "parseSimpleRule reg rule =
     (case rule of
        RStr s \<Rightarrow> resolveRule reg s []
      | RArr [] \<Rightarrow> Inl TypeError
      | RArr (nm # ps) \<Rightarrow>
          (case nm of
             RStr s \<Rightarrow> resolveRule reg s ps
           | RUndef \<Rightarrow> Inl TypeError
           | RNull \<Rightarrow> Inl TypeError
           | RBool b \<Rightarrow> Inl (UnknownRuleException (if b then ''true'' else ''false''))
           | RNum n \<Rightarrow>
               Inl (InvalidRuleNameException nm
                 ''Rule name must start with a lowercase letter and contain only lowercase letters, numbers, and underscores'')
           | RRegExp src flags \<Rightarrow>
               Inl (InvalidRuleNameException nm
                 ''Rule name must start with a lowercase letter and contain only lowercase letters, numbers, and underscores'')
           | _ \<Rightarrow> Inl (NotARule rule))
      | _ \<Rightarrow> Inl (InvalidRuleNameException rule ''Invalid rule format''))"

text \<open>\<open>xs.map(f)\<close> where \<open>f\<close> may throw: the first exception ends the traversal.\<close>

fun mapM :: "('a \<Rightarrow> error + 'b) \<Rightarrow> 'a list \<Rightarrow> error + 'b list" where
  "mapM f [] = Inr []"
| "mapM f (x # xs) =
     (case f x of
        Inl e \<Rightarrow> Inl e
      | Inr y \<Rightarrow> (case mapM f xs of Inl e \<Rightarrow> Inl e | Inr ys \<Rightarrow> Inr (y # ys)))"

text \<open>\<open>thenRules.map(...)\<close> and \<open>elseRules?.map(...)\<close>\<close>

definition parseThen :: "registry \<Rightarrow> raw \<Rightarrow> error + ParsedRule list" where
  "parseThen reg r = (case r of RArr ts \<Rightarrow> mapM (parseSimpleRule reg) ts | _ \<Rightarrow> Inl TypeError)"

definition parseElse :: "registry \<Rightarrow> raw \<Rightarrow> error + ParsedRule list option" where
  "parseElse reg r =
     (case r of
        RUndef \<Rightarrow> Inr None
      | RNull \<Rightarrow> Inr None
      | RArr es \<Rightarrow> (case mapM (parseSimpleRule reg) es of Inl e \<Rightarrow> Inl e | Inr ys \<Rightarrow> Inr (Some ys))
      | _ \<Rightarrow> Inl TypeError)"

definition parseConditional :: "registry \<Rightarrow> raw list \<Rightarrow> error + ParsedRuleItem" where
  "parseConditional reg rest =
     (case parseThen reg (item rest 1) of
        Inl e \<Rightarrow> Inl e
      | Inr ts \<Rightarrow>
          (case parseElse reg (item rest 2) of
             Inl e \<Rightarrow> Inl e
           | Inr es \<Rightarrow>
               Inr (Conditional \<lparr> condition = item rest 0, thenRules = ts, elseRules = es \<rparr>)))"

definition is_when :: "raw \<Rightarrow> bool" where
  "is_when rule = (case rule of RArr (x # rest) \<Rightarrow> x = RStr ''when'' | _ \<Rightarrow> False)"

definition parseRule :: "registry \<Rightarrow> raw \<Rightarrow> error + ParsedRuleItem" where
  "parseRule reg rule =
     (if is_when rule then (case rule of RArr (x # rest) \<Rightarrow> parseConditional reg rest | _ \<Rightarrow> Inl TypeError)
      else (case parseSimpleRule reg rule of Inl e \<Rightarrow> Inl e | Inr r \<Rightarrow> Inr (Simple r)))"

definition parseFieldRules :: "registry \<Rightarrow> raw list \<Rightarrow> error + ParsedRuleItem list" where
  "parseFieldRules reg rules = mapM (parseRule reg) rules"

text \<open>
  \<open>rules\<close> stands for \<open>Object.entries(rules)\<close>; the result is the \<open>Map\<close> of parsed rule
  lists in the order of its keys.
\<close>

fun parseRules_loop ::
  "registry \<Rightarrow> (string \<times> raw list) list \<Rightarrow> (string \<times> ParsedRuleItem list) list
     \<Rightarrow> error + (string \<times> ParsedRuleItem list) list"
where
  "parseRules_loop reg [] parsed = Inr parsed"
| "parseRules_loop reg ((field, fieldRules) # others) parsed =
     (case parseFieldRules reg fieldRules of
        Inl e \<Rightarrow> Inl e
      | Inr items \<Rightarrow> parseRules_loop reg others (put field items parsed))"

definition parseRules ::
  "registry \<Rightarrow> (string \<times> raw list) list \<Rightarrow> error + (string \<times> ParsedRuleItem list) list" where
  "parseRules reg rules = parseRules_loop reg rules []"

definition hasNullableRule :: "ParsedRuleItem list \<Rightarrow> bool" where
  "hasNullableRule parsedRules =
     list_ex (\<lambda>it. case it of Simple r \<Rightarrow> rule_name r = ''nullable'' | Conditional _ \<Rightarrow> False)
       parsedRules"

definition isConditionalRule :: "ParsedRuleItem \<Rightarrow> bool" where
  "isConditionalRule it = (case it of Conditional _ \<Rightarrow> True | Simple _ \<Rightarrow> False)"


section \<open>validator.ts\<close>

record Validator =
  rules :: "(string \<times> raw list) list"
  parsedRules :: "(string \<times> ParsedRuleItem list) list"

text \<open>The constructor: parsing may throw, and then there is no Validator.\<close>

definition new_Validator :: "registry \<Rightarrow> (string \<times> raw list) list \<Rightarrow> error + Validator" where
  "new_Validator reg rs =
     (case parseRules reg rs of
        Inl e \<Rightarrow> Inl e
      | Inr parsed \<Rightarrow> Inr \<lparr> rules = rs, parsedRules = parsed \<rparr>)"

definition validateSimpleRule ::
  "heap \<Rightarrow> string \<Rightarrow> jsval \<Rightarrow> jsval \<Rightarrow> ParsedRule \<Rightarrow> ValidationError option" where
  "validateSimpleRule h field v allData rule =
     (if skipIfEmpty (handler rule) \<noteq> Some False \<and> isEmpty h v then None
      else handler_validate (handler rule) h v (params rule) allData field)"

text \<open>The loop of \<open>validateConditionalRule\<close> over the selected branch.\<close>

fun validateConditionalRule_loop ::
  "heap \<Rightarrow> string \<Rightarrow> jsval \<Rightarrow> jsval \<Rightarrow> ParsedRule list \<Rightarrow> ValidationError list" where
  "validateConditionalRule_loop h field v allData [] = []"
| "validateConditionalRule_loop h field v allData (simpleRule # rest) =
     (case validateSimpleRule h field v allData simpleRule of
        None \<Rightarrow> validateConditionalRule_loop h field v allData rest
      | Some e \<Rightarrow>
          if bailOnFailure (handler simpleRule) = Some True then [e]
          else e # validateConditionalRule_loop h field v allData rest)"

definition validateConditionalRule ::
  "env \<Rightarrow> heap \<Rightarrow> string \<Rightarrow> jsval \<Rightarrow> jsval \<Rightarrow> ParsedConditionalRule \<Rightarrow> ValidationError list" where
  "validateConditionalRule rt h field v allData rule =
     (let conditionMet = evaluateCondition rt h (condition rule) v allData;
          rulesToApply = (if conditionMet then Some (thenRules rule) else elseRules rule)
      in case rulesToApply of
           None \<Rightarrow> []
         | Some rs \<Rightarrow> validateConditionalRule_loop h field v allData rs)"

text \<open>The loop of \<open>validateField\<close> over the field's items.\<close>

fun validateField_loop ::
  "env \<Rightarrow> heap \<Rightarrow> string \<Rightarrow> jsval \<Rightarrow> jsval \<Rightarrow> ParsedRuleItem list \<Rightarrow> ValidationError list" where
  "validateField_loop rt h field v allData [] = []"
| "validateField_loop rt h field v allData (Conditional ruleItem # rest) =
     validateConditionalRule rt h field v allData ruleItem
     @ validateField_loop rt h field v allData rest"
| "validateField_loop rt h field v allData (Simple ruleItem # rest) =
     (case validateSimpleRule h field v allData ruleItem of
        None \<Rightarrow> validateField_loop rt h field v allData rest
      | Some e \<Rightarrow>
          if bailOnFailure (handler ruleItem) = Some True then [e]
          else e # validateField_loop rt h field v allData rest)"

definition validateField ::
  "env \<Rightarrow> heap \<Rightarrow> string \<Rightarrow> jsval \<Rightarrow> jsval \<Rightarrow> ParsedRuleItem list \<Rightarrow> ValidationError list" where
  "validateField rt h field v allData fieldRules =
     (if hasNullableRule fieldRules \<and> isEmpty h v then []
      else validateField_loop rt h field v allData fieldRules)"

text \<open>
  The body shared by the two branches of \<open>validate\<close>, for one concrete field: the
  state is the store and the own properties of the error object, as inserted; \<open>target\<close>
  is the address of \<open>validated\<close>. The assignment \<open>errors[field] = fieldErrors\<close> creates
  or updates an own property, except for the name \<open>__proto__\<close>: there it replaces the
  prototype of \<open>errors\<close> and no own property appears.
\<close>

definition validate_field ::
  "env \<Rightarrow> nat \<Rightarrow> jsval \<Rightarrow> ParsedRuleItem list \<Rightarrow> string \<times> jsval
     \<Rightarrow> heap \<times> (string \<times> ValidationError list) list
     \<Rightarrow> heap \<times> (string \<times> ValidationError list) list" where
  "validate_field rt target data fieldRules fv st =
     (case (fv, st) of
        ((field, v), (h, errs)) \<Rightarrow>
          (let fieldErrors = validateField rt h field v data fieldRules in
           if length fieldErrors > 0 then
             (h, if field = ''__proto__'' then errs else put field fieldErrors errs)
           else (set_path h target field v, errs)))"

definition validate_pattern ::
  "env \<Rightarrow> nat \<Rightarrow> jsval \<Rightarrow> string \<times> ParsedRuleItem list
     \<Rightarrow> heap \<times> (string \<times> ValidationError list) list
     \<Rightarrow> heap \<times> (string \<times> ValidationError list) list" where
  "validate_pattern rt target data pr st =
     (case pr of
        (fieldPattern, fieldRules) \<Rightarrow>
          if isWildcardPattern fieldPattern then
            fold (validate_field rt target data fieldRules)
                 (expandWildcards (fst st) fieldPattern data) st
          else validate_field rt target data fieldRules
                 (fieldPattern, get (fst st) data fieldPattern) st)"

text \<open>
  \<open>validate\<close> allocates \<open>validated\<close>, runs the patterns in order and returns the store
  with the result. \<open>valid\<close> is \<open>Object.keys(errors).length === 0\<close>; the \<open>errors\<close> of the
  result are the entries of the error object in the order the host lists them. On
  failure the result holds a new empty object.
\<close>

definition validate :: "env \<Rightarrow> Validator \<Rightarrow> heap \<Rightarrow> jsval \<Rightarrow> heap \<times> ValidationResult" where
  "validate rt vd h data =
     (let target = length h;
          st = fold (validate_pattern rt target data) (parsedRules vd) (h @ [empty_object], [])
      in if snd st = [] then
           (fst st, \<lparr> valid = True, errors = own_entries (snd st), validated = Ref target \<rparr>)
         else
           (fst st @ [empty_object],
            \<lparr> valid = False, errors = own_entries (snd st),
              validated = Ref (length (fst st)) \<rparr>))"

definition Validator_make ::
  "env \<Rightarrow> registry \<Rightarrow> heap \<Rightarrow> jsval \<Rightarrow> (string \<times> raw list) list \<Rightarrow> error + heap \<times> ValidationResult" where
  "Validator_make rt reg h data rs =
     (case new_Validator reg rs of
        Inl e \<Rightarrow> Inl e
      | Inr vd \<Rightarrow> Inr (validate rt vd h data))"

section \<open>Shapes of rule specifications\<close>


text \<open>The entries of a branch, when it is a list.\<close>

definition branch_items :: "raw \<Rightarrow> raw list" where
  "branch_items r = (case r of RArr ts \<Rightarrow> ts | _ \<Rightarrow> [])"

text \<open>A conditional rule with a conditional item in its then or else branch.\<close>

definition has_nested_when :: "raw \<Rightarrow> bool" where
  "has_nested_when rule =
     (case rule of
        RArr (x # rest) \<Rightarrow>
          x = RStr ''when'' \<and>
          list_ex is_when (branch_items (item rest 1) @ branch_items (item rest 2))
      | _ \<Rightarrow> False)"

section \<open>Sample records and validators\<close>

text \<open>A rule item without parameters, as the parser builds it from a bare name.\<close>

definition simple :: "RuleHandler \<Rightarrow> ParsedRuleItem" where
  "simple hnd = Simple \<lparr> rule_name = name hnd, params = [], handler = hnd \<rparr>"

text \<open>The record \<open>{a: {b: "x"}}\<close>: the outer object at address 0, the inner at 1.\<close>

definition nested_record :: heap where
  "nested_record = [JSObj None [(''a'', Ref 1)], JSObj None [(''b'', Str ''x'')]]"

text \<open>\<open>{a: ['required'], 'a.b.c': ['nullable']}\<close>\<close>

definition through_validator :: Validator where
  "through_validator =
     \<lparr> rules = [(''a'', [RStr ''required'']), (''a.b.c'', [RStr ''nullable''])],
       parsedRules = [(''a'', [simple requiredRule]), (''a.b.c'', [simple nullableRule])] \<rparr>"

text \<open>\<open>{'a.b': ['string'], a: ['required'], 'a.b.c': ['nullable']}\<close>\<close>

definition twice_validator :: Validator where
  "twice_validator =
     \<lparr> rules = [(''a.b'', [RStr ''string'']), (''a'', [RStr ''required'']),
                (''a.b.c'', [RStr ''nullable''])],
       parsedRules = [(''a.b'', [simple stringRule]), (''a'', [simple requiredRule]),
                      (''a.b.c'', [simple nullableRule])] \<rparr>"


text \<open>\<open>{f: [["when", ["@filled"], [["when", ["@filled"], []]]]]}\<close>\<close>

definition nested_when_rules :: "(string \<times> raw list) list" where
  "nested_when_rules =
     [(''f'', [RArr [RStr ''when'', RArr [RStr ''@filled''],
                     RArr [RArr [RStr ''when'', RArr [RStr ''@filled''], RArr []]]]])]"

text \<open>\<open>{f: [["when", ["@filled"], ["Bad", ["when", ["@filled"], []]]]]}\<close>\<close>

definition bad_then_nested_rules :: "(string \<times> raw list) list" where
  "bad_then_nested_rules =
     [(''f'', [RArr [RStr ''when'', RArr [RStr ''@filled''],
                     RArr [RStr ''Bad'',
                           RArr [RStr ''when'', RArr [RStr ''@filled''], RArr []]]]])]"

text \<open>
  \<open>{a: ["required"], f: ["string", ["when", ["@filled"], ["required"],
  ["string", ["when", ["@filled"], []]]]]}\<close>
\<close>

definition nested_else_rules :: "(string \<times> raw list) list" where
  "nested_else_rules =
     [(''a'', [RStr ''required'']),
      (''f'', [RStr ''string'',
               RArr [RStr ''when'', RArr [RStr ''@filled''], RArr [RStr ''required''],
                     RArr [RStr ''string'', RArr [RStr ''when'', RArr [RStr ''@filled''], RArr []]]]])]"





text \<open>Validators and records for the result of \<open>validate\<close>.\<close>







section \<open>The shape of the validated record\<close>











section \<open>Evaluation\<close>

lemmas eval_defs =
  validate_def validate_pattern_def validate_field_def validateField_def hasNullableRule_def
  validateSimpleRule_def validateConditionalRule_def isWildcardPattern_def includes_star_def
  expandWildcards_def get_def set_path_def has_own_def prop_get_def prop_set_def obj_put_def
  obj_at_def is_object_def isArray_def isEmpty_def trim_def is_ws_def empty_object_def
  empty_array_def all_digits_def is_digit_def array_index_def digits_val_def digit_val_def
  requiredRule_def nullableRule_def stringRule_def integerRule_def field_error_def typeof_def
  isInteger_def parseInt10_def Let_def array_items_def Object_entries_def List.map_filter_def
  simple_def own_entries_def

section \<open>The emptiness predicate\<close>








section \<open>Writes through the record\<close>

text \<open>
  Claim C9. \<open>validate\<close> is meant to leave the record alone. With the rules
  \<open>{a: ['required'], 'a.b.c': ['nullable']}\<close> and the record \<open>{a: {b: "x"}}\<close> it does not:
  the object of \<open>a\<close> is stored in \<open>validated\<close> by reference, and writing \<open>a.b.c\<close>
  then replaces the string under \<open>b\<close> of the record's own object by a new object.
\<close>

theorem validate_writes_record:
  "obj_at nested_record 1 = JSObj None [(''b'', Str ''x'')]
   \<and> valid (snd (validate rt through_validator nested_record (Ref 0)))
   \<and> obj_at (fst (validate rt through_validator nested_record (Ref 0))) 1
       = JSObj None [(''b'', Ref 3)]
   \<and> obj_at (fst (validate rt through_validator nested_record (Ref 0))) 3
       = JSObj None [(''c'', Undefined)]"
  by (simp add: eval_defs nested_record_def through_validator_def cong: let_weak_cong)

text \<open>
  Claim C8. Two calls on the same record are meant to agree. With the rules
  \<open>{'a.b': ['string'], a: ['required'], 'a.b.c': ['nullable']}\<close> the first call on
  \<open>{a: {b: "x"}}\<close> succeeds and, by the write above, leaves an object under \<open>a.b\<close>; the
  second call on the same record then fails the \<open>string\<close> rule.
\<close>

theorem validate_twice_differs:
  "valid (snd (validate rt twice_validator nested_record (Ref 0)))
   \<and> \<not> valid (snd (validate rt twice_validator
                      (fst (validate rt twice_validator nested_record (Ref 0))) (Ref 0)))"
  by (simp add: eval_defs nested_record_def twice_validator_def cong: let_weak_cong)


section \<open>The registry of built-in rules\<close>

lemma handler_names:
  "name requiredRule = ''required''" "name nullableRule = ''nullable''" "name filledRule = ''filled''"
  "name presentRule = ''present''" "name stringRule = ''string''" "name (integerRule rt) = ''integer''"
  "name booleanRule = ''boolean''" "name arrayRule = ''array''" "name (leafRule rt n) = n"
  by (simp_all add: leafRule_def requiredRule_def stringRule_def nullableRule_def
     filledRule_def presentRule_def integerRule_def booleanRule_def arrayRule_def)

lemma map_of_put: "map_of (put k v ps) = (map_of ps)(k \<mapsto> v)"
  by (induction ps) (auto simp: fun_eq_iff)

lemma find_snoc:
  "find P (xs @ [x]) = (case find P xs of Some y \<Rightarrow> Some y | None \<Rightarrow> if P x then Some x else None)"
  by (induction xs) auto

lemma getRule_fold:
  "getRule (fold registerRule hs reg) k =
     (case find (\<lambda>h. name h = k) (rev hs) of Some h \<Rightarrow> Some h | None \<Rightarrow> getRule reg k)"
proof (induction hs arbitrary: reg)
  case Nil
  then show ?case by simp
next
  case (Cons x xs)
  have r: "getRule (registerRule x reg) k = (if name x = k then Some x else getRule reg k)"
    by (simp add: getRule_def registerRule_def map_of_put)
  have "getRule (fold registerRule (x # xs) reg) k
          = getRule (fold registerRule xs (registerRule x reg)) k"
    by simp
  also have "\<dots> = (case find (\<lambda>h. name h = k) (rev xs) of
                      Some h \<Rightarrow> Some h | None \<Rightarrow> getRule (registerRule x reg) k)"
    by (rule Cons.IH)
  finally show ?case
    by (simp add: r find_snoc split: option.splits)
qed

lemma getRule_ruleRegistry:
  "getRule (ruleRegistry rt) k = find (\<lambda>h. name h = k) (rev (builtInRules rt))"
  by (simp add: ruleRegistry_def getRule_fold) (simp add: getRule_def split: option.splits)


lemma getRule_builtin:
  "getRule (ruleRegistry rt) ''required'' = Some requiredRule"
  "getRule (ruleRegistry rt) ''nullable'' = Some nullableRule"
  "getRule (ruleRegistry rt) ''string'' = Some stringRule"
  "getRule (ruleRegistry rt) ''integer'' = Some (integerRule rt)"
  "getRule (ruleRegistry rt) ''min'' = Some (leafRule rt ''min'')"
  "getRule (ruleRegistry rt) ''when'' = None"
  by (simp_all add: getRule_ruleRegistry builtInRules_def handler_names)


lemmas parse_defs = new_Validator_def parseRules_def parseFieldRules_def parseRule_def is_when_def
     parseSimpleRule_def resolveRule_def validateRuleName_def MAX_LENGTH_def NAME_PATTERN_def is_lower_def
     parseConditional_def parseThen_def parseElse_def item_def Validator_make_def

section \<open>Bail on failure\<close>

lemma loop_bail_prefix:
  assumes "validateSimpleRule h f v d r = Some e" "bailOnFailure (handler r) = Some True"
  shows "validateField_loop rt h f v d (pre @ Simple r # post) = validateField_loop rt h f v d (pre @ [Simple r])"
proof (induction pre)
  case Nil
  then show ?case using assms by simp
next
  case (Cons a pre)
  then show ?case by (cases a) (simp_all split: option.splits)
qed

lemma branch_bail_prefix:
  assumes "validateSimpleRule h f v d r = Some e" "bailOnFailure (handler r) = Some True"
  shows "validateConditionalRule_loop h f v d (pre @ r # post) = validateConditionalRule_loop h f v d (pre @ [r])"
proof (induction pre)
  case Nil
  then show ?case using assms by simp
next
  case (Cons a pre)
  then show ?case by (simp split: option.splits)
qed

lemma required_min_example:
  "Validator_make rt (ruleRegistry rt) [JSObj None [(''field'', Str [])]] (Ref 0)
         [(''field'', [RStr ''required'', RStr ''string'', RArr [RStr ''min'', RNum (Fin 5)]])]
   = Inr ([JSObj None [(''field'', Str [])], empty_object, empty_object],
       \<lparr>valid = False,
          errors = [(''field'', [ValidationError ''validation.required'' [(''field'', Str ''field'')]])],
          validated = Ref 2\<rparr>)"
  by (simp add: parse_defs getRule_builtin eval_defs leafRule_def cong: let_weak_cong)

lemma loop_append_nostop:
  "\<forall>p. Simple p \<in> set pre \<longrightarrow>
       validateSimpleRule h f v d p = None \<or> bailOnFailure (handler p) \<noteq> Some True \<Longrightarrow>
   validateField_loop rt h f v d (pre @ rest)
     = validateField_loop rt h f v d pre @ validateField_loop rt h f v d rest"
proof (induction pre)
  case Nil
  then show ?case by simp
next
  case (Cons a pre)
  then show ?case by (cases a) (auto split: option.splits)
qed

lemma branch_append_nostop:
  "\<forall>p\<in>set pre. validateSimpleRule h f v d p = None \<or> bailOnFailure (handler p) \<noteq> Some True \<Longrightarrow>
   validateConditionalRule_loop h f v d (pre @ rest)
     = validateConditionalRule_loop h f v d pre @ validateConditionalRule_loop h f v d rest"
  by (induction pre) (auto split: option.splits)

lemma branch_collects:
  "\<forall>p\<in>set bs. validateSimpleRule h f v d p = None \<or> bailOnFailure (handler p) \<noteq> Some True \<Longrightarrow>
   validateConditionalRule_loop h f v d bs = List.map_filter (validateSimpleRule h f v d) bs"
  by (induction bs) (auto simp: map_filter_simps split: option.splits)

lemma loop_collects:
  "\<forall>p\<in>set sp. validateSimpleRule h f v d p = None \<or> bailOnFailure (handler p) \<noteq> Some True \<Longrightarrow>
   validateField_loop rt h f v d (map Simple sp) = List.map_filter (validateSimpleRule h f v d) sp"
  by (induction sp) (auto simp: map_filter_simps split: option.splits)

lemma loop_stops:
  assumes "validateSimpleRule h f v d r = Some e" "bailOnFailure (handler r) = Some True"
    and "\<forall>p. Simple p \<in> set pre \<longrightarrow>
       validateSimpleRule h f v d p = None \<or> bailOnFailure (handler p) \<noteq> Some True"
  shows "validateField_loop rt h f v d (pre @ Simple r # post) = validateField_loop rt h f v d pre @ [e]"
  using loop_append_nostop [OF assms(3)] assms(1,2) by simp

lemma simple_loop_stops:
  assumes "validateSimpleRule h f v d r = Some e" "bailOnFailure (handler r) = Some True"
    and "\<forall>p\<in>set sp. validateSimpleRule h f v d p = None \<or> bailOnFailure (handler p) \<noteq> Some True"
  shows "validateField_loop rt h f v d (map Simple sp @ Simple r # post)
           = List.map_filter (validateSimpleRule h f v d) sp @ [e]"
proof -
  have "\<forall>p. Simple p \<in> set (map Simple sp) \<longrightarrow>
       validateSimpleRule h f v d p = None \<or> bailOnFailure (handler p) \<noteq> Some True"
    using assms(3) by auto
  from loop_stops [OF assms(1,2) this] show ?thesis
    by (simp add: loop_collects [OF assms(3)])
qed

lemma branch_stops:
  assumes "validateSimpleRule h f v d r = Some e" "bailOnFailure (handler r) = Some True"
    and "\<forall>p\<in>set bpre. validateSimpleRule h f v d p = None \<or> bailOnFailure (handler p) \<noteq> Some True"
    and "evaluateCondition rt h (condition c) v d \<and> thenRules c = bpre @ r # bpost
         \<or> \<not> evaluateCondition rt h (condition c) v d \<and> elseRules c = Some (bpre @ r # bpost)"
  shows "validateConditionalRule rt h f v d c = List.map_filter (validateSimpleRule h f v d) bpre @ [e]"
proof -
  have "validateConditionalRule rt h f v d c = validateConditionalRule_loop h f v d (bpre @ r # bpost)"
    using assms(4) by (auto simp: validateConditionalRule_def)
  also have "\<dots> = validateConditionalRule_loop h f v d bpre @ [e]"
    using branch_append_nostop [OF assms(3)] assms(1,2) by simp
  finally show ?thesis by (simp add: branch_collects [OF assms(3)])
qed

lemma branch_runs:
  assumes "\<forall>p\<in>set bs. validateSimpleRule h f v d p = None \<or> bailOnFailure (handler p) \<noteq> Some True"
    and "evaluateCondition rt h (condition c) v d \<and> thenRules c = bs
         \<or> \<not> evaluateCondition rt h (condition c) v d \<and> elseRules c = Some bs"
  shows "validateConditionalRule rt h f v d c = List.map_filter (validateSimpleRule h f v d) bs"
  using assms(2) branch_collects [OF assms(1)] by (auto simp: validateConditionalRule_def)

lemma branch_absent:
  "\<not> evaluateCondition rt h (condition c) v d \<Longrightarrow> elseRules c = None \<Longrightarrow>
     validateConditionalRule rt h f v d c = []"
  by (simp add: validateConditionalRule_def)

lemma getRule_present: "getRule (ruleRegistry rt) ''present'' = Some presentRule"
  by (simp add: getRule_ruleRegistry builtInRules_def handler_names)

lemma branch_bail_example:
  "Validator_make rt (ruleRegistry rt) [empty_object] (Ref 0)
     [(''field'', [RArr [RStr ''when'', RArr [RStr ''@empty''], RArr [RStr ''required'', RStr ''string'']],
                   RStr ''present''])]
   = Inr ([empty_object, empty_object, empty_object],
       \<lparr>valid = False,
          errors = [(''field'', [ValidationError ''validation.required'' [(''field'', Str ''field'')],
                                 ValidationError ''validation.present'' [(''field'', Str ''field'')]])],
          validated = Ref 2\<rparr>)"
  by (simp add: parse_defs getRule_builtin getRule_present eval_defs presentRule_def
        evaluateSelfCondition_def cong: let_weak_cong)

text \<open>
  Claim C2. When a rule with \<open>bailOnFailure\<close> produces an error, the list being executed
  stops there. At top level the errors of the field are those of the items before the
  rule followed by that error, whatever comes after it. Inside the branch that a
  conditional item selects, the errors of the item are those of the branch rules before
  the rule followed by that error, and the top-level loop goes on with the item after
  the conditional. Rules that do not bail let the list go on and every error is kept.
  With the rules \<open>[required, string, ["min", 5]]\<close> the record \<open>{field: ""}\<close> yields the
  single error \<open>validation.required\<close>; with \<open>[["when", ["@empty"], [required, string]],
  present]\<close> the record \<open>{}\<close> yields \<open>validation.required\<close> from the branch and then
  \<open>validation.present\<close>.
\<close>

theorem bail_on_failure:
  "(validateSimpleRule h f v d r = Some e \<and> bailOnFailure (handler r) = Some True \<longrightarrow>
       validateField_loop rt h f v d (Simple r # post) = [e]
     \<and> validateField_loop rt h f v d (pre @ Simple r # post)
         = validateField_loop rt h f v d (pre @ [Simple r])
     \<and> validateConditionalRule_loop h f v d (r # bpost) = [e]
     \<and> validateConditionalRule_loop h f v d (bpre @ r # bpost)
         = validateConditionalRule_loop h f v d (bpre @ [r])
     \<and> ((\<forall>p. Simple p \<in> set pre \<longrightarrow>
            validateSimpleRule h f v d p = None \<or> bailOnFailure (handler p) \<noteq> Some True) \<longrightarrow>
          validateField_loop rt h f v d (pre @ Simple r # post)
            = validateField_loop rt h f v d pre @ [e])
     \<and> ((\<forall>p\<in>set sp. validateSimpleRule h f v d p = None \<or> bailOnFailure (handler p) \<noteq> Some True) \<longrightarrow>
          validateField_loop rt h f v d (map Simple sp @ Simple r # post)
            = List.map_filter (validateSimpleRule h f v d) sp @ [e])
     \<and> ((\<forall>p\<in>set bpre. validateSimpleRule h f v d p = None \<or> bailOnFailure (handler p) \<noteq> Some True)
         \<and> (evaluateCondition rt h (condition c) v d \<and> thenRules c = bpre @ r # bpost
            \<or> \<not> evaluateCondition rt h (condition c) v d \<and> elseRules c = Some (bpre @ r # bpost)) \<longrightarrow>
          validateConditionalRule rt h f v d c
            = List.map_filter (validateSimpleRule h f v d) bpre @ [e]
        \<and> validateField_loop rt h f v d (Conditional c # post)
            = List.map_filter (validateSimpleRule h f v d) bpre @ [e]
              @ validateField_loop rt h f v d post))
   \<and> validateField_loop rt h f v d (Conditional c # post)
       = validateConditionalRule rt h f v d c @ validateField_loop rt h f v d post
   \<and> ((\<forall>p. Simple p \<in> set pre \<longrightarrow>
          validateSimpleRule h f v d p = None \<or> bailOnFailure (handler p) \<noteq> Some True) \<longrightarrow>
        validateField_loop rt h f v d (pre @ post)
          = validateField_loop rt h f v d pre @ validateField_loop rt h f v d post)
   \<and> ((\<forall>p\<in>set bs. validateSimpleRule h f v d p = None \<or> bailOnFailure (handler p) \<noteq> Some True)
       \<and> (evaluateCondition rt h (condition c) v d \<and> thenRules c = bs
          \<or> \<not> evaluateCondition rt h (condition c) v d \<and> elseRules c = Some bs) \<longrightarrow>
        validateConditionalRule rt h f v d c = List.map_filter (validateSimpleRule h f v d) bs)
   \<and> (\<not> evaluateCondition rt h (condition c) v d \<and> elseRules c = None \<longrightarrow>
        validateConditionalRule rt h f v d c = [])
   \<and> (\<not> (hasNullableRule rs \<and> isEmpty h v) \<longrightarrow>
        validateField rt h f v d rs = validateField_loop rt h f v d rs)
   \<and> Validator_make rt (ruleRegistry rt) [JSObj None [(''field'', Str [])]] (Ref 0)
         [(''field'', [RStr ''required'', RStr ''string'', RArr [RStr ''min'', RNum (Fin 5)]])]
       = Inr ([JSObj None [(''field'', Str [])], empty_object, empty_object],
           \<lparr>valid = False,
              errors = [(''field'', [ValidationError ''validation.required'' [(''field'', Str ''field'')]])],
              validated = Ref 2\<rparr>)
   \<and> Validator_make rt (ruleRegistry rt) [empty_object] (Ref 0)
         [(''field'', [RArr [RStr ''when'', RArr [RStr ''@empty''],
                             RArr [RStr ''required'', RStr ''string'']],
                       RStr ''present''])]
       = Inr ([empty_object, empty_object, empty_object],
           \<lparr>valid = False,
              errors = [(''field'', [ValidationError ''validation.required'' [(''field'', Str ''field'')],
                                     ValidationError ''validation.present'' [(''field'', Str ''field'')]])],
              validated = Ref 2\<rparr>)"
proof -
  have top: "validateField_loop rt h f v d (Conditional c # post)
       = validateConditionalRule rt h f v d c @ validateField_loop rt h f v d post"
    by simp
  have nn: "\<not> (hasNullableRule rs \<and> isEmpty h v) \<longrightarrow>
        validateField rt h f v d rs = validateField_loop rt h f v d rs"
    by (simp add: validateField_def)
  show ?thesis
    using loop_bail_prefix [of h f v d r e rt pre post] branch_bail_prefix [of h f v d r e bpre bpost]
      loop_stops [of h f v d r e pre rt post] simple_loop_stops [of h f v d r e sp rt post]
      branch_stops [of h f v d r e bpre rt c bpost] top
      loop_append_nostop [of pre h f v d rt post] branch_runs [of bs h f v d rt c]
      branch_absent [of rt h c v d f] nn
      required_min_example [of rt] branch_bail_example [of rt]
    by (simp (no_asm_use)) blast
qed


theorem bail_on_failure_witness:
  "\<forall>rt. validateSimpleRule [empty_object] ''field'' Undefined (Ref 0)
            \<lparr> rule_name = ''required'', params = [], handler = requiredRule \<rparr>
           = Some (ValidationError ''validation.required'' [(''field'', Str ''field'')])
     \<and> bailOnFailure (handler \<lparr> rule_name = ''required'', params = [], handler = requiredRule \<rparr>) = Some True
     \<and> validateField_loop rt [empty_object] ''field'' Undefined (Ref 0)
          [simple requiredRule, simple stringRule]
         = [ValidationError ''validation.required'' [(''field'', Str ''field'')]]
     \<and> evaluateCondition rt [empty_object] (RArr [RStr ''@empty'']) Undefined (Ref 0)
     \<and> validateConditionalRule rt [empty_object] ''field'' Undefined (Ref 0)
          \<lparr> condition = RArr [RStr ''@empty''],
            thenRules = [\<lparr> rule_name = ''required'', params = [], handler = requiredRule \<rparr>,
                         \<lparr> rule_name = ''string'', params = [], handler = stringRule \<rparr>],
            elseRules = None \<rparr>
         = [ValidationError ''validation.required'' [(''field'', Str ''field'')]]
     \<and> validateField_loop rt [empty_object] ''field'' Undefined (Ref 0)
          [Conditional \<lparr> condition = RArr [RStr ''@empty''],
              thenRules = [\<lparr> rule_name = ''required'', params = [], handler = requiredRule \<rparr>,
                           \<lparr> rule_name = ''string'', params = [], handler = stringRule \<rparr>],
              elseRules = None \<rparr>,
           simple presentRule]
         = [ValidationError ''validation.required'' [(''field'', Str ''field'')],
            ValidationError ''validation.present'' [(''field'', Str ''field'')]]"
proof
  fix rt
  let ?h = "[empty_object]"
  let ?req = "\<lparr> rule_name = ''required'', params = [], handler = requiredRule \<rparr>"
  let ?str = "\<lparr> rule_name = ''string'', params = [], handler = stringRule \<rparr>"
  let ?e = "ValidationError ''validation.required'' [(''field'', Str ''field'')]"
  let ?c = "\<lparr> condition = RArr [RStr ''@empty''], thenRules = [?req, ?str], elseRules = None \<rparr>"
  have a: "validateSimpleRule ?h ''field'' Undefined (Ref 0) ?req = Some ?e"
    by (simp add: validateSimpleRule_def requiredRule_def isEmpty_def field_error_def)
  have b: "bailOnFailure (handler ?req) = Some True"
    by (simp add: requiredRule_def)
  have c: "evaluateCondition rt ?h (condition ?c) Undefined (Ref 0)"
    by (simp add: evaluateSelfCondition_def isEmpty_def)
  have t: "thenRules ?c = [] @ ?req # [?str]" by simp
  have n: "\<forall>p\<in>set []. validateSimpleRule ?h ''field'' Undefined (Ref 0) p = None
             \<or> bailOnFailure (handler p) \<noteq> Some True"
    by simp
  have p: "validateField_loop rt ?h ''field'' Undefined (Ref 0) [simple presentRule]
             = [ValidationError ''validation.present'' [(''field'', Str ''field'')]]"
    by (simp add: simple_def validateSimpleRule_def presentRule_def field_error_def)
  note th = bail_on_failure [where h = ?h and f = "''field''" and v = Undefined and d = "Ref 0"
      and r = ?req and e = ?e and rt = rt and bpre = "[]" and bpost = "[?str]" and c = ?c]
  from th [where post = "[simple stringRule]"] a b
  have 1: "validateField_loop rt ?h ''field'' Undefined (Ref 0) (Simple ?req # [simple stringRule]) = [?e]"
    by blast
  from th [where post = "[simple presentRule]"] a b c t n
  have 2: "validateConditionalRule rt ?h ''field'' Undefined (Ref 0) ?c
             = List.map_filter (validateSimpleRule ?h ''field'' Undefined (Ref 0)) [] @ [?e]"
    and 3: "validateField_loop rt ?h ''field'' Undefined (Ref 0) (Conditional ?c # [simple presentRule])
             = List.map_filter (validateSimpleRule ?h ''field'' Undefined (Ref 0)) [] @ [?e]
               @ validateField_loop rt ?h ''field'' Undefined (Ref 0) [simple presentRule]"
    by blast+
  have r: "simple requiredRule = Simple ?req" by (simp add: simple_def requiredRule_def)
  show "validateSimpleRule ?h ''field'' Undefined (Ref 0) ?req = Some ?e
     \<and> bailOnFailure (handler ?req) = Some True
     \<and> validateField_loop rt ?h ''field'' Undefined (Ref 0) [simple requiredRule, simple stringRule] = [?e]
     \<and> evaluateCondition rt ?h (RArr [RStr ''@empty'']) Undefined (Ref 0)
     \<and> validateConditionalRule rt ?h ''field'' Undefined (Ref 0) ?c = [?e]
     \<and> validateField_loop rt ?h ''field'' Undefined (Ref 0) [Conditional ?c, simple presentRule]
         = [?e, ValidationError ''validation.present'' [(''field'', Str ''field'')]]"
    using a b c 1 2 3 p r by (simp add: map_filter_simps)
qed


section \<open>The nullable modifier\<close>

lemma nullable_integer_examples:
  "Validator_make rt (ruleRegistry rt) [JSObj None [(''field'', Null)]] (Ref 0)
       [(''field'', [RStr ''nullable'', RStr ''integer''])]
     = Inr ([JSObj None [(''field'', Null)], JSObj None [(''field'', Null)]],
            \<lparr>valid = True, errors = [], validated = Ref 1\<rparr>)"
  "Validator_make rt (ruleRegistry rt) [JSObj None [(''field'', Undefined)]] (Ref 0)
       [(''field'', [RStr ''nullable'', RStr ''integer''])]
     = Inr ([JSObj None [(''field'', Undefined)], JSObj None [(''field'', Undefined)]],
            \<lparr>valid = True, errors = [], validated = Ref 1\<rparr>)"
  "Validator_make rt (ruleRegistry rt) [JSObj None [(''field'', Str ''x'')]] (Ref 0)
       [(''field'', [RStr ''nullable'', RStr ''integer''])]
     = Inr ([JSObj None [(''field'', Str ''x'')], empty_object, empty_object],
            \<lparr>valid = False,
               errors = [(''field'', [ValidationError ''validation.integer'' [(''field'', Str ''field'')]])],
               validated = Ref 2\<rparr>)"
  "Validator_make rt (ruleRegistry rt) [JSObj None [(''field'', Num (Fin 5))]] (Ref 0)
       [(''field'', [RStr ''nullable'', RStr ''integer''])]
     = Inr ([JSObj None [(''field'', Num (Fin 5))], JSObj None [(''field'', Num (Fin 5))]],
            \<lparr>valid = True, errors = [], validated = Ref 1\<rparr>)"
  by (simp_all add: parse_defs getRule_builtin eval_defs cong: let_weak_cong)

lemma hasNullableRule_iff:
  "hasNullableRule rs \<longleftrightarrow> (\<exists>r. Simple r \<in> set rs \<and> rule_name r = ''nullable'')"
proof
  assume "hasNullableRule rs"
  then obtain it where it: "it \<in> set rs"
    "(case it of Simple r \<Rightarrow> rule_name r = ''nullable'' | Conditional _ \<Rightarrow> False)"
    by (auto simp: hasNullableRule_def list_ex_iff)
  have "\<exists>r. it = Simple r \<and> rule_name r = ''nullable''"
    using it(2) by (cases it) simp_all
  then show "\<exists>r. Simple r \<in> set rs \<and> rule_name r = ''nullable''"
    using it(1) by blast
next
  assume "\<exists>r. Simple r \<in> set rs \<and> rule_name r = ''nullable''"
  then obtain r where "Simple r \<in> set rs" "rule_name r = ''nullable''" by blast
  then show "hasNullableRule rs"
    unfolding hasNullableRule_def list_ex_iff by (intro bexI [of _ "Simple r"]) simp_all
qed

lemma mapM_member:
  "mapM f xs = Inr ys \<Longrightarrow> x \<in> set xs \<Longrightarrow> \<exists>y\<in>set ys. f x = Inr y"
  by (induction xs arbitrary: ys) (auto split: sum.splits)

lemma parse_named:
  assumes "parseRule reg r = Inr it" "r = RStr nm \<or> r = RArr (RStr nm # ps)" "nm \<noteq> ''when''"
  shows "\<exists>p. it = Simple p \<and> rule_name p = nm"
  using assms
  by (auto simp: parseRule_def is_when_def parseSimpleRule_def resolveRule_def
      split: sum.splits option.splits)

lemma parsed_has_nullable:
  assumes "parseFieldRules reg raws = Inr rs"
    "RStr ''nullable'' \<in> set raws \<or> RArr (RStr ''nullable'' # xs) \<in> set raws"
  shows "hasNullableRule rs"
proof -
  from assms(2) obtain r where r: "r \<in> set raws" "r = RStr ''nullable'' \<or> r = RArr (RStr ''nullable'' # xs)"
    by blast
  from mapM_member [OF assms(1) [unfolded parseFieldRules_def] r(1)]
  obtain it where it: "it \<in> set rs" "parseRule reg r = Inr it" by blast
  from parse_named [OF it(2) r(2)] obtain p where "it = Simple p" "rule_name p = ''nullable''"
    by auto
  then show ?thesis using it(1) unfolding hasNullableRule_iff by blast
qed

lemma nullable_skips:
  assumes "parseFieldRules reg raws = Inr rs"
    "RStr ''nullable'' \<in> set raws \<or> RArr (RStr ''nullable'' # xs) \<in> set raws" "isEmpty h v"
  shows "validateField rt h f v d rs = []"
    "validate_field rt target d rs (f, v) (h, errs) = (set_path h target f v, errs)"
  using parsed_has_nullable [OF assms(1,2)] assms(3)
  by (simp_all add: validateField_def validate_field_def)

lemma nullable_silent:
  "handler r = nullableRule \<Longrightarrow> validateSimpleRule h f v d r = None"
  by (simp add: validateSimpleRule_def nullableRule_def)

lemma nullable_transparent:
  assumes "handler r = nullableRule"
  shows "validateField_loop rt h f v d (pre @ Simple r # post) = validateField_loop rt h f v d (pre @ post)"
proof (induction pre)
  case Nil
  then show ?case using nullable_silent [OF assms] by simp
next
  case (Cons a pre)
  then show ?case by (cases a) (simp_all split: option.splits)
qed

lemma nullable_parsed:
  "parseRule (ruleRegistry rt) (RStr ''nullable'')
     = Inr (Simple \<lparr> rule_name = ''nullable'', params = [], handler = nullableRule \<rparr>)"
  by (simp add: parse_defs getRule_builtin)

lemma required_nullable_example:
  "Validator_make rt (ruleRegistry rt) [JSObj None [(''field'', Str '' '')]] (Ref 0)
       [(''field'', [RStr ''required'', RStr ''nullable''])]
     = Inr ([JSObj None [(''field'', Str '' '')], JSObj None [(''field'', Str '' '')]],
            \<lparr>valid = True, errors = [], validated = Ref 1\<rparr>)"
  by (simp add: parse_defs getRule_builtin eval_defs cong: let_weak_cong)

text \<open>
  Claim C3. If the rule list of a field holds the \<open>nullable\<close> modifier at any position
  and the value is empty, \<open>validateField\<close> returns no error whatever the other rules are,
  and \<open>validate\<close> writes the value and records nothing; this holds for the parsed form
  of every rule list that contains \<open>nullable\<close>. The \<open>nullable\<close> rule itself never
  produces an error: for a value that is not empty the field is validated by the loop
  over its rules, and removing the \<open>nullable\<close> item from the list does not change the
  errors. With the rules \<open>[nullable, integer]\<close>, \<open>null\<close> and \<open>undefined\<close> are valid,
  \<open>"x"\<close> fails with \<open>validation.integer\<close> and \<open>5\<close> is valid; with \<open>[required, nullable]\<close>
  the value \<open>" "\<close> is valid.
\<close>

theorem nullable_short_circuit:
  "(hasNullableRule rs \<and> isEmpty h v \<longrightarrow> validateField rt h f v d rs = [])
   \<and> (hasNullableRule rs \<longleftrightarrow> (\<exists>r. Simple r \<in> set rs \<and> rule_name r = ''nullable''))
   \<and> (Simple r \<in> set rs \<and> rule_name r = ''nullable'' \<and> isEmpty h v \<longrightarrow>
        validateField rt h f v d rs = [])
   \<and> (parseFieldRules reg raws = Inr rs
       \<and> (RStr ''nullable'' \<in> set raws \<or> RArr (RStr ''nullable'' # xs) \<in> set raws)
       \<and> isEmpty h v \<longrightarrow>
        validateField rt h f v d rs = []
      \<and> validate_field rt target d rs (f, v) (h, errs) = (set_path h target f v, errs))
   \<and> (\<not> isEmpty h v \<longrightarrow> validateField rt h f v d rs = validateField_loop rt h f v d rs)
   \<and> handler_validate nullableRule h v ps d f = None
   \<and> (handler r = nullableRule \<longrightarrow>
        validateSimpleRule h f v d r = None
      \<and> validateField_loop rt h f v d (pre @ Simple r # post)
          = validateField_loop rt h f v d (pre @ post))
   \<and> parseRule (ruleRegistry rt) (RStr ''nullable'')
       = Inr (Simple \<lparr> rule_name = ''nullable'', params = [], handler = nullableRule \<rparr>)
   \<and> Validator_make rt (ruleRegistry rt) [JSObj None [(''field'', Null)]] (Ref 0)
         [(''field'', [RStr ''nullable'', RStr ''integer''])]
       = Inr ([JSObj None [(''field'', Null)], JSObj None [(''field'', Null)]],
              \<lparr>valid = True, errors = [], validated = Ref 1\<rparr>)
   \<and> Validator_make rt (ruleRegistry rt) [JSObj None [(''field'', Undefined)]] (Ref 0)
         [(''field'', [RStr ''nullable'', RStr ''integer''])]
       = Inr ([JSObj None [(''field'', Undefined)], JSObj None [(''field'', Undefined)]],
              \<lparr>valid = True, errors = [], validated = Ref 1\<rparr>)
   \<and> Validator_make rt (ruleRegistry rt) [JSObj None [(''field'', Str ''x'')]] (Ref 0)
         [(''field'', [RStr ''nullable'', RStr ''integer''])]
       = Inr ([JSObj None [(''field'', Str ''x'')], empty_object, empty_object],
              \<lparr>valid = False,
                 errors = [(''field'', [ValidationError ''validation.integer'' [(''field'', Str ''field'')]])],
                 validated = Ref 2\<rparr>)
   \<and> Validator_make rt (ruleRegistry rt) [JSObj None [(''field'', Num (Fin 5))]] (Ref 0)
         [(''field'', [RStr ''nullable'', RStr ''integer''])]
       = Inr ([JSObj None [(''field'', Num (Fin 5))], JSObj None [(''field'', Num (Fin 5))]],
              \<lparr>valid = True, errors = [], validated = Ref 1\<rparr>)
   \<and> Validator_make rt (ruleRegistry rt) [JSObj None [(''field'', Str '' '')]] (Ref 0)
         [(''field'', [RStr ''required'', RStr ''nullable''])]
       = Inr ([JSObj None [(''field'', Str '' '')], JSObj None [(''field'', Str '' '')]],
              \<lparr>valid = True, errors = [], validated = Ref 1\<rparr>)"
proof -
  have a: "hasNullableRule rs \<and> isEmpty h v \<longrightarrow> validateField rt h f v d rs = []"
    by (simp add: validateField_def)
  have b: "Simple r \<in> set rs \<and> rule_name r = ''nullable'' \<and> isEmpty h v \<longrightarrow>
        validateField rt h f v d rs = []"
    using hasNullableRule_iff [of rs] by (auto simp: validateField_def)
  have c: "\<not> isEmpty h v \<longrightarrow> validateField rt h f v d rs = validateField_loop rt h f v d rs"
    by (simp add: validateField_def)
  have e: "handler_validate nullableRule h v ps d f = None"
    by (simp add: nullableRule_def)
  show ?thesis
    using a b c e hasNullableRule_iff [of rs] nullable_skips(1) [where reg = reg and raws = raws and rs = rs and xs = xs and h = h and v = v
        and rt = rt and f = f and d = d]
      nullable_skips(2) [where reg = reg and raws = raws and rs = rs and xs = xs and h = h and v = v
        and rt = rt and f = f and d = d and target = target and errs = errs]
      nullable_silent [where r = r and h = h and f = f and v = v and d = d]
      nullable_transparent [where r = r and rt = rt and h = h and f = f and v = v and d = d
        and pre = pre and post = post]
      nullable_parsed [of rt] nullable_integer_examples [of rt] required_nullable_example [of rt]
    by (simp (no_asm_use)) blast
qed


theorem nullable_short_circuit_witness:
  "\<forall>rt. parseFieldRules (ruleRegistry rt) [RStr ''required'', RStr ''nullable'']
           = Inr [simple requiredRule, simple nullableRule]
     \<and> RStr ''nullable'' \<in> set [RStr ''required'', RStr ''nullable'']
     \<and> isEmpty [JSObj None [(''field'', Str '' '')]] (Str '' '')
     \<and> hasNullableRule [simple requiredRule, simple nullableRule]
     \<and> validateField rt [JSObj None [(''field'', Str '' '')]] ''field'' (Str '' '') (Ref 0)
          [simple requiredRule, simple nullableRule] = []
     \<and> \<not> isEmpty [JSObj None [(''field'', Str ''x'')]] (Str ''x'')
     \<and> validateField rt [JSObj None [(''field'', Str ''x'')]] ''field'' (Str ''x'') (Ref 0)
          [simple nullableRule, simple (integerRule rt)]
        = validateField_loop rt [JSObj None [(''field'', Str ''x'')]] ''field'' (Str ''x'') (Ref 0)
          [simple nullableRule, simple (integerRule rt)]
     \<and> handler \<lparr> rule_name = ''nullable'', params = [], handler = nullableRule \<rparr> = nullableRule
     \<and> validateField_loop rt [JSObj None [(''field'', Str ''x'')]] ''field'' (Str ''x'') (Ref 0)
          [simple (integerRule rt), simple nullableRule, simple stringRule]
        = validateField_loop rt [JSObj None [(''field'', Str ''x'')]] ''field'' (Str ''x'') (Ref 0)
          [simple (integerRule rt), simple stringRule]"
proof
  fix rt
  let ?nul = "\<lparr> rule_name = ''nullable'', params = [], handler = nullableRule \<rparr>"
  let ?raws = "[RStr ''required'', RStr ''nullable'']"
  let ?rs = "[simple requiredRule, simple nullableRule]"
  let ?h = "[JSObj None [(''field'', Str '' '')]]"
  let ?hx = "[JSObj None [(''field'', Str ''x'')]]"
  have p: "parseFieldRules (ruleRegistry rt) ?raws = Inr ?rs"
    by (simp add: parse_defs getRule_builtin simple_def requiredRule_def nullableRule_def)
  have m: "RStr ''nullable'' \<in> set ?raws" by simp
  have e: "isEmpty ?h (Str '' '')" by (simp add: isEmpty_def trim_def is_ws_def)
  have n: "\<not> isEmpty ?hx (Str ''x'')" by (simp add: isEmpty_def trim_def is_ws_def)
  have hn: "handler ?nul = nullableRule" by simp
  have sn: "simple nullableRule = Simple ?nul" by (simp add: simple_def nullableRule_def)
  from nullable_short_circuit [where reg = "ruleRegistry rt" and raws = ?raws and rs = ?rs
      and h = ?h and v = "Str '' ''" and rt = rt and f = "''field''" and d = "Ref 0"] p m e
  have 1: "validateField rt ?h ''field'' (Str '' '') (Ref 0) ?rs = []" by blast
  from nullable_short_circuit [where rs = ?rs] p m
  have 2: "hasNullableRule ?rs" using sn by (auto simp: nullableRule_def)
  from nullable_short_circuit [where rs = "[simple nullableRule, simple (integerRule rt)]"
      and h = ?hx and v = "Str ''x''" and rt = rt and f = "''field''" and d = "Ref 0"] n
  have 3: "validateField rt ?hx ''field'' (Str ''x'') (Ref 0) [simple nullableRule, simple (integerRule rt)]
        = validateField_loop rt ?hx ''field'' (Str ''x'') (Ref 0) [simple nullableRule, simple (integerRule rt)]"
    by blast
  from nullable_short_circuit [where r = ?nul and h = ?hx and v = "Str ''x''" and rt = rt
      and f = "''field''" and d = "Ref 0" and pre = "[simple (integerRule rt)]"
      and post = "[simple stringRule]"] hn
  have 4: "validateField_loop rt ?hx ''field'' (Str ''x'') (Ref 0)
          ([simple (integerRule rt)] @ Simple ?nul # [simple stringRule])
        = validateField_loop rt ?hx ''field'' (Str ''x'') (Ref 0)
          ([simple (integerRule rt)] @ [simple stringRule])"
    by blast
  show "parseFieldRules (ruleRegistry rt) ?raws = Inr ?rs
     \<and> RStr ''nullable'' \<in> set ?raws
     \<and> isEmpty ?h (Str '' '')
     \<and> hasNullableRule ?rs
     \<and> validateField rt ?h ''field'' (Str '' '') (Ref 0) ?rs = []
     \<and> \<not> isEmpty ?hx (Str ''x'')
     \<and> validateField rt ?hx ''field'' (Str ''x'') (Ref 0) [simple nullableRule, simple (integerRule rt)]
        = validateField_loop rt ?hx ''field'' (Str ''x'') (Ref 0) [simple nullableRule, simple (integerRule rt)]
     \<and> handler ?nul = nullableRule
     \<and> validateField_loop rt ?hx ''field'' (Str ''x'') (Ref 0)
          [simple (integerRule rt), simple nullableRule, simple stringRule]
        = validateField_loop rt ?hx ''field'' (Str ''x'') (Ref 0)
          [simple (integerRule rt), simple stringRule]"
    using p m e n hn 1 2 3 4 unfolding sn by simp
qed

section \<open>Failures of construction\<close>

lemma mapM_fails:
  "x \<in> set xs \<Longrightarrow> f x = Inl e \<Longrightarrow> \<exists>e'. mapM f xs = Inl e'"
  by (induction xs) (auto split: sum.splits)

lemma mapM_first_failure:
  "mapM f pre = Inr ys \<Longrightarrow> f x = Inl e \<Longrightarrow> mapM f (pre @ x # post) = Inl e"
  by (induction pre arbitrary: ys) (auto split: sum.splits)

lemma parseRules_loop_fails:
  "(fld, frs) \<in> set rs \<Longrightarrow> parseFieldRules reg frs = Inl e \<Longrightarrow>
     \<exists>e'. parseRules_loop reg rs acc = Inl e'"
  by (induction rs arbitrary: acc) (auto split: sum.splits)

lemma entry_fails_constructor:
  assumes "(fld, frs) \<in> set rs" "r \<in> set frs" "parseRule reg r = Inl e"
  shows "\<exists>e'. new_Validator reg rs = Inl e'"
proof -
  have "\<exists>e1. parseFieldRules reg frs = Inl e1"
    unfolding parseFieldRules_def
    using assms(2,3) by (rule mapM_fails [where f = "parseRule reg" and x = r])
  then obtain e1 where e1: "parseFieldRules reg frs = Inl e1" ..
  have "\<exists>e2. parseRules reg rs = Inl e2"
    unfolding parseRules_def using assms(1) e1 by (rule parseRules_loop_fails)
  then show ?thesis by (auto simp: new_Validator_def)
qed

lemma resolve_cases:
  "length nm > MAX_LENGTH \<Longrightarrow>
     resolveRule reg nm ps = Inl (InvalidRuleNameException (RStr nm) ''Rule name exceeds maximum length of 1024'')"
  "length nm \<le> MAX_LENGTH \<Longrightarrow> \<not> NAME_PATTERN nm \<Longrightarrow>
     resolveRule reg nm ps = Inl (InvalidRuleNameException (RStr nm)
       ''Rule name must start with a lowercase letter and contain only lowercase letters, numbers, and underscores'')"
  "length nm \<le> MAX_LENGTH \<Longrightarrow> NAME_PATTERN nm \<Longrightarrow> getRule reg nm = None \<Longrightarrow>
     resolveRule reg nm ps = Inl (UnknownRuleException nm)"
  "length nm \<le> MAX_LENGTH \<Longrightarrow> NAME_PATTERN nm \<Longrightarrow> getRule reg nm = Some hnd \<Longrightarrow>
     resolveRule reg nm ps = Inr \<lparr> rule_name = nm, params = ps, handler = hnd \<rparr>"
  by (simp_all add: resolveRule_def validateRuleName_def)

lemma parseSimpleRule_shapes:
  "parseSimpleRule reg (RStr nm) = resolveRule reg nm []"
  "parseSimpleRule reg (RArr (RStr nm # ps)) = resolveRule reg nm ps"
  "(\<forall>s. r \<noteq> RStr s) \<Longrightarrow> (\<forall>xs. r \<noteq> RArr xs) \<Longrightarrow>
     parseSimpleRule reg r = Inl (InvalidRuleNameException r ''Invalid rule format'')"
  by (simp_all add: parseSimpleRule_def split: raw.splits)

lemma when_name_ok: "length ''when'' \<le> MAX_LENGTH" "NAME_PATTERN ''when''"
  by (simp_all add: MAX_LENGTH_def NAME_PATTERN_def is_lower_def)

lemma nested_when_item:
  assumes "getRule reg ''when'' = None" "is_when w"
  shows "parseSimpleRule reg w = Inl (UnknownRuleException ''when'')"
proof -
  from assms(2) obtain rest where "w = RArr (RStr ''when'' # rest)"
    by (cases w) (auto simp: is_when_def split: list.splits)
  then show ?thesis
    using resolve_cases(3) [OF when_name_ok assms(1)] by (simp add: parseSimpleRule_shapes)
qed

lemma nested_when_fails:
  assumes "getRule reg ''when'' = None" "has_nested_when r"
  shows "\<exists>e. parseRule reg r = Inl e"
proof -
  from assms(2) obtain rest where r: "r = RArr (RStr ''when'' # rest)"
    and ex: "list_ex is_when (branch_items (item rest 1) @ branch_items (item rest 2))"
    by (cases r) (auto simp: has_nested_when_def split: list.splits)
  have pr: "parseRule reg r = parseConditional reg rest"
    using r by (simp add: parseRule_def is_when_def)
  from ex obtain w where w: "is_when w"
    and mem: "w \<in> set (branch_items (item rest 1)) \<or> w \<in> set (branch_items (item rest 2))"
    by (auto simp: list_ex_iff)
  have wf: "parseSimpleRule reg w = Inl (UnknownRuleException ''when'')"
    using nested_when_item [OF assms(1) w] .
  show ?thesis
  proof (cases "parseThen reg (item rest 1)")
    case (Inl e)
    then show ?thesis by (simp add: pr parseConditional_def)
  next
    case (Inr ts)
    have notthen: "w \<notin> set (branch_items (item rest 1))"
    proof
      assume "w \<in> set (branch_items (item rest 1))"
      then obtain xs where "item rest 1 = RArr xs" "w \<in> set xs"
        by (cases "item rest 1") (auto simp: branch_items_def)
      then have "\<exists>e. parseThen reg (item rest 1) = Inl e"
        using mapM_fails [of w xs "parseSimpleRule reg", OF _ wf] by (simp add: parseThen_def)
      with Inr show False by simp
    qed
    with mem have "w \<in> set (branch_items (item rest 2))" by simp
    then obtain xs where "item rest 2 = RArr xs" "w \<in> set xs"
      by (cases "item rest 2") (auto simp: branch_items_def)
    then have "\<exists>e. parseElse reg (item rest 2) = Inl e"
      using mapM_fails [of w xs "parseSimpleRule reg", OF _ wf] by (auto simp: parseElse_def)
    then show ?thesis using Inr by (auto simp: pr parseConditional_def)
  qed
qed






section \<open>Conditionals inside branches\<close>

lemma then_first_failure:
  assumes "getRule reg ''when'' = None" "is_when w" "mapM (parseSimpleRule reg) pre = Inr ps"
  shows "parseThen reg (RArr (pre @ w # post)) = Inl (UnknownRuleException ''when'')"
  using mapM_first_failure [OF assms(3) nested_when_item [OF assms(1,2)]]
  by (simp add: parseThen_def)

lemma only_nested_when:
  assumes "getRule reg ''when'' = None" "is_when w" "mapM (parseSimpleRule reg) pre = Inr ps"
  shows "new_Validator reg [(fld, [RArr (RStr ''when'' # c # RArr (pre @ w # post) # tl3)])]
           = Inl (UnknownRuleException ''when'')"
  using then_first_failure [OF assms]
  by (simp add: new_Validator_def parseRules_def parseFieldRules_def parseRule_def is_when_def
        parseConditional_def item_def)

lemma nested_when_never_parsed:
  assumes "getRule reg ''when'' = None" "(fld, frs) \<in> set rs" "r \<in> set frs" "has_nested_when r"
  shows "\<exists>e. new_Validator reg rs = Inl e"
proof -
  from nested_when_fails [OF assms(1,4)] obtain e where "parseRule reg r = Inl e" ..
  with assms(2,3) show ?thesis by (rule entry_fails_constructor)
qed

lemma mapM_append:
  "mapM f (xs @ ys)
     = (case mapM f xs of
          Inl e \<Rightarrow> Inl e
        | Inr as \<Rightarrow> (case mapM f ys of Inl e \<Rightarrow> Inl e | Inr bs \<Rightarrow> Inr (as @ bs)))"
  by (induction xs) (auto split: sum.splits)

lemma parseRules_loop_append:
  "parseRules_loop reg (xs @ ys) acc
     = (case parseRules_loop reg xs acc of
          Inl e \<Rightarrow> Inl e
        | Inr acc' \<Rightarrow> parseRules_loop reg ys acc')"
  by (induction xs arbitrary: acc) (auto split: sum.splits)

lemma constructor_first_failure:
  assumes "parseRules reg fpre = Inr acc" "mapM (parseRule reg) ipre = Inr its" "parseRule reg x = Inl e"
  shows "new_Validator reg (fpre @ (fld, ipre @ x # ipost) # fpost) = Inl e"
proof -
  have "parseFieldRules reg (ipre @ x # ipost) = Inl e"
    unfolding parseFieldRules_def using mapM_first_failure [OF assms(2,3)] .
  then show ?thesis
    using assms(1) by (simp add: new_Validator_def parseRules_def parseRules_loop_append)
qed

lemma constructor_earlier_field:
  "parseRules reg fpre = Inl e \<Longrightarrow> new_Validator reg (fpre @ rest) = Inl e"
  by (simp add: new_Validator_def parseRules_def parseRules_loop_append)

lemma constructor_earlier_item:
  assumes "parseRules reg fpre = Inr acc" "mapM (parseRule reg) ipre = Inl e"
  shows "new_Validator reg (fpre @ (fld, ipre @ irest) # fpost) = Inl e"
proof -
  have "parseFieldRules reg (ipre @ irest) = Inl e"
    unfolding parseFieldRules_def using assms(2) by (simp add: mapM_append)
  then show ?thesis
    using assms(1) by (simp add: new_Validator_def parseRules_def parseRules_loop_append)
qed

lemma when_item:
  "parseRule reg (RArr (RStr ''when'' # c # th # tl3))
     = (case parseThen reg th of
          Inl e \<Rightarrow> Inl e
        | Inr ts \<Rightarrow>
            (case parseElse reg (case tl3 of [] \<Rightarrow> RUndef | el # _ \<Rightarrow> el) of
               Inl e \<Rightarrow> Inl e
             | Inr es \<Rightarrow> Inr (Conditional \<lparr> condition = c, thenRules = ts, elseRules = es \<rparr>)))"
  by (cases tl3) (simp_all add: parseRule_def is_when_def parseConditional_def item_def split: sum.splits)

lemma then_nested:
  assumes "getRule reg ''when'' = None" "is_when w" "mapM (parseSimpleRule reg) tpre = Inr ts"
  shows "parseRule reg (RArr (RStr ''when'' # c # RArr (tpre @ w # tpost) # tl3))
           = Inl (UnknownRuleException ''when'')"
  using then_first_failure [OF assms] by (simp add: when_item)

lemma then_earlier:
  assumes "mapM (parseSimpleRule reg) tpre = Inl e"
  shows "parseRule reg (RArr (RStr ''when'' # c # RArr (tpre @ trest) # tl3)) = Inl e"
  using assms by (simp add: when_item parseThen_def mapM_append)

lemma then_fails:
  assumes "parseThen reg th = Inl e"
  shows "parseRule reg (RArr (RStr ''when'' # c # th # tl3)) = Inl e"
  using assms by (simp add: when_item)

lemma else_nested:
  assumes "getRule reg ''when'' = None" "is_when w" "mapM (parseSimpleRule reg) thens = Inr ts"
    "mapM (parseSimpleRule reg) epre = Inr es"
  shows "parseRule reg (RArr (RStr ''when'' # c # RArr thens # RArr (epre @ w # epost) # tl4))
           = Inl (UnknownRuleException ''when'')"
  using mapM_first_failure [OF assms(4) nested_when_item [OF assms(1,2)]] assms(3)
  by (simp add: when_item parseThen_def parseElse_def)

lemma else_earlier:
  assumes "mapM (parseSimpleRule reg) thens = Inr ts" "mapM (parseSimpleRule reg) epre = Inl e"
  shows "parseRule reg (RArr (RStr ''when'' # c # RArr thens # RArr (epre @ erest) # tl4)) = Inl e"
  using assms by (simp add: when_item parseThen_def parseElse_def mapM_append)

lemma nested_then_constructor:
  assumes "getRule reg ''when'' = None" "is_when w" "parseRules reg fpre = Inr acc"
    "mapM (parseRule reg) ipre = Inr its" "mapM (parseSimpleRule reg) tpre = Inr ts"
  shows "new_Validator reg
           (fpre @ (fld, ipre @ RArr (RStr ''when'' # c # RArr (tpre @ w # tpost) # tl3) # ipost) # fpost)
         = Inl (UnknownRuleException ''when'')"
  using constructor_first_failure [OF assms(3,4) then_nested [OF assms(1,2,5)]] .

lemma nested_else_constructor:
  assumes "getRule reg ''when'' = None" "is_when w" "parseRules reg fpre = Inr acc"
    "mapM (parseRule reg) ipre = Inr its" "mapM (parseSimpleRule reg) thens = Inr ts"
    "mapM (parseSimpleRule reg) epre = Inr es"
  shows "new_Validator reg
           (fpre @ (fld, ipre @ RArr (RStr ''when'' # c # RArr thens # RArr (epre @ w # epost) # tl4) # ipost)
              # fpost)
         = Inl (UnknownRuleException ''when'')"
  using constructor_first_failure [OF assms(3,4) else_nested [OF assms(1,2,5,6)]] .

lemma nested_never_built:
  assumes "getRule reg ''when'' = None" "new_Validator reg rs = Inr vd"
  shows "\<not> (\<exists>fld frs r. (fld, frs) \<in> set rs \<and> r \<in> set frs \<and> has_nested_when r)"
  using nested_when_never_parsed [OF assms(1)] assms(2) by fastforce

text \<open>
  Claim C10, as the code has it. Provided no rule named \<open>when\<close> is registered (none is
  among the built-in rules), a conditional item inside a branch is parsed as a rule named
  \<open>when\<close> and raises \<open>UnknownRuleException\<close>. The constructor raises the exception of
  the first entry that fails, in the order of the fields, of the items of a field, of the
  then branch and then the else branch of a conditional item: it raises
  \<open>UnknownRuleException\<close> for \<open>when\<close> if the fields, the items and the branch entries
  before the nested conditional all parse, in the then branch as in the else branch, and
  the exception of the earlier entry otherwise. In every case the constructor fails, so
  no parsed rule set comes from a specification with a nested conditional.
\<close>

theorem nested_conditional_rejected:
  "(getRule reg ''when'' = None \<and> is_when w \<longrightarrow>
      parseSimpleRule reg w = Inl (UnknownRuleException ''when''))
   \<and> (getRule reg ''when'' = None \<and> is_when w \<and> mapM (parseSimpleRule reg) pre = Inr ps \<longrightarrow>
        parseThen reg (RArr (pre @ w # post)) = Inl (UnknownRuleException ''when'')
      \<and> new_Validator reg [(fld, [RArr (RStr ''when'' # c # RArr (pre @ w # post) # tl3)])]
          = Inl (UnknownRuleException ''when''))
   \<and> (getRule reg ''when'' = None \<and> (fld, frs) \<in> set rs \<and> r \<in> set frs \<and> has_nested_when r \<longrightarrow>
        (\<exists>e. new_Validator reg rs = Inl e))
   \<and> getRule (ruleRegistry rt) ''when'' = None
   \<and> (getRule reg ''when'' = None \<and> is_when w \<and> parseRules reg fpre = Inr acc
       \<and> mapM (parseRule reg) ipre = Inr its \<and> mapM (parseSimpleRule reg) tpre = Inr ts \<longrightarrow>
        new_Validator reg
          (fpre @ (fld, ipre @ RArr (RStr ''when'' # c # RArr (tpre @ w # tpost) # tl3) # ipost) # fpost)
        = Inl (UnknownRuleException ''when''))
   \<and> (getRule reg ''when'' = None \<and> is_when w \<and> parseRules reg fpre = Inr acc
       \<and> mapM (parseRule reg) ipre = Inr its \<and> mapM (parseSimpleRule reg) thens = Inr ts
       \<and> mapM (parseSimpleRule reg) epre = Inr es \<longrightarrow>
        new_Validator reg
          (fpre @ (fld, ipre @ RArr (RStr ''when'' # c # RArr thens # RArr (epre @ w # epost) # tl4) # ipost)
             # fpost)
        = Inl (UnknownRuleException ''when''))
   \<and> (parseRules reg fpre = Inl e \<longrightarrow> new_Validator reg (fpre @ rest) = Inl e)
   \<and> (parseRules reg fpre = Inr acc \<and> mapM (parseRule reg) ipre = Inl e \<longrightarrow>
        new_Validator reg (fpre @ (fld, ipre @ irest) # fpost) = Inl e)
   \<and> (parseRules reg fpre = Inr acc \<and> mapM (parseRule reg) ipre = Inr its
       \<and> mapM (parseSimpleRule reg) tpre = Inl e \<longrightarrow>
        new_Validator reg
          (fpre @ (fld, ipre @ RArr (RStr ''when'' # c # RArr (tpre @ trest) # tl3) # ipost) # fpost)
        = Inl e)
   \<and> (parseRules reg fpre = Inr acc \<and> mapM (parseRule reg) ipre = Inr its
       \<and> parseThen reg th = Inl e \<longrightarrow>
        new_Validator reg (fpre @ (fld, ipre @ RArr (RStr ''when'' # c # th # tl3) # ipost) # fpost)
        = Inl e)
   \<and> (parseRules reg fpre = Inr acc \<and> mapM (parseRule reg) ipre = Inr its
       \<and> mapM (parseSimpleRule reg) thens = Inr ts \<and> mapM (parseSimpleRule reg) epre = Inl e \<longrightarrow>
        new_Validator reg
          (fpre @ (fld, ipre @ RArr (RStr ''when'' # c # RArr thens # RArr (epre @ erest) # tl4) # ipost)
             # fpost)
        = Inl e)
   \<and> (getRule reg ''when'' = None \<and> new_Validator reg rs = Inr vd \<longrightarrow>
        \<not> (\<exists>fld frs r. (fld, frs) \<in> set rs \<and> r \<in> set frs \<and> has_nested_when r))
   \<and> (new_Validator reg rs = Inl e \<longrightarrow> Validator_make rt reg h data rs = Inl e)"
proof -
  have g1: "(getRule reg ''when'' = None \<and> is_when w \<longrightarrow>
      parseSimpleRule reg w = Inl (UnknownRuleException ''when''))
   \<and> (getRule reg ''when'' = None \<and> is_when w \<and> mapM (parseSimpleRule reg) pre = Inr ps \<longrightarrow>
        parseThen reg (RArr (pre @ w # post)) = Inl (UnknownRuleException ''when'')
      \<and> new_Validator reg [(fld, [RArr (RStr ''when'' # c # RArr (pre @ w # post) # tl3)])]
          = Inl (UnknownRuleException ''when''))
   \<and> (getRule reg ''when'' = None \<and> (fld, frs) \<in> set rs \<and> r \<in> set frs \<and> has_nested_when r \<longrightarrow>
        (\<exists>e. new_Validator reg rs = Inl e))
   \<and> getRule (ruleRegistry rt) ''when'' = None"
    using nested_when_item [of reg w] then_first_failure [of reg w pre ps post]
      only_nested_when [of reg w pre ps fld c post tl3]
      nested_when_never_parsed [of reg fld frs rs r] getRule_builtin(6) [of rt]
    by blast
  have g2: "getRule reg ''when'' = None \<and> is_when w \<and> parseRules reg fpre = Inr acc
       \<and> mapM (parseRule reg) ipre = Inr its \<and> mapM (parseSimpleRule reg) tpre = Inr ts \<longrightarrow>
        new_Validator reg
          (fpre @ (fld, ipre @ RArr (RStr ''when'' # c # RArr (tpre @ w # tpost) # tl3) # ipost) # fpost)
        = Inl (UnknownRuleException ''when'')"
    using nested_then_constructor by blast
  have g3: "getRule reg ''when'' = None \<and> is_when w \<and> parseRules reg fpre = Inr acc
       \<and> mapM (parseRule reg) ipre = Inr its \<and> mapM (parseSimpleRule reg) thens = Inr ts
       \<and> mapM (parseSimpleRule reg) epre = Inr es \<longrightarrow>
        new_Validator reg
          (fpre @ (fld, ipre @ RArr (RStr ''when'' # c # RArr thens # RArr (epre @ w # epost) # tl4) # ipost)
             # fpost)
        = Inl (UnknownRuleException ''when'')"
    using nested_else_constructor by blast
  have g4: "parseRules reg fpre = Inl e \<longrightarrow> new_Validator reg (fpre @ rest) = Inl e"
    using constructor_earlier_field by blast
  have g5: "parseRules reg fpre = Inr acc \<and> mapM (parseRule reg) ipre = Inl e \<longrightarrow>
        new_Validator reg (fpre @ (fld, ipre @ irest) # fpost) = Inl e"
    using constructor_earlier_item by blast
  have g6: "parseRules reg fpre = Inr acc \<and> mapM (parseRule reg) ipre = Inr its
       \<and> mapM (parseSimpleRule reg) tpre = Inl e \<longrightarrow>
        new_Validator reg
          (fpre @ (fld, ipre @ RArr (RStr ''when'' # c # RArr (tpre @ trest) # tl3) # ipost) # fpost)
        = Inl e"
    using constructor_first_failure [OF _ _ then_earlier] by blast
  have g7: "parseRules reg fpre = Inr acc \<and> mapM (parseRule reg) ipre = Inr its
       \<and> parseThen reg th = Inl e \<longrightarrow>
        new_Validator reg (fpre @ (fld, ipre @ RArr (RStr ''when'' # c # th # tl3) # ipost) # fpost)
        = Inl e"
    using constructor_first_failure [OF _ _ then_fails] by blast
  have g8: "parseRules reg fpre = Inr acc \<and> mapM (parseRule reg) ipre = Inr its
       \<and> mapM (parseSimpleRule reg) thens = Inr ts \<and> mapM (parseSimpleRule reg) epre = Inl e \<longrightarrow>
        new_Validator reg
          (fpre @ (fld, ipre @ RArr (RStr ''when'' # c # RArr thens # RArr (epre @ erest) # tl4) # ipost)
             # fpost)
        = Inl e"
    using constructor_first_failure [OF _ _ else_earlier] by blast
  have g9: "getRule reg ''when'' = None \<and> new_Validator reg rs = Inr vd \<longrightarrow>
        \<not> (\<exists>fld frs r. (fld, frs) \<in> set rs \<and> r \<in> set frs \<and> has_nested_when r)"
    using nested_never_built by blast
  have g10: "new_Validator reg rs = Inl e \<longrightarrow> Validator_make rt reg h data rs = Inl e"
    by (simp add: Validator_make_def)
  show ?thesis
    apply (insert g1 g2 g3 g4 g5 g6 g7 g8 g9 g10)
    apply (elim conjE)
    apply (intro conjI; assumption)
    done
qed

text \<open>
  The claim as stated fails twice: an invalid name before the nested conditional raises
  \<open>InvalidRuleNameException\<close> first, and once a rule named \<open>when\<close> has been registered
  the constructor succeeds.
\<close>

theorem nested_conditional_other_outcomes:
  "\<forall>rt. new_Validator (ruleRegistry rt) bad_then_nested_rules
          = Inl (InvalidRuleNameException (RStr ''Bad'')
              ''Rule name must start with a lowercase letter and contain only lowercase letters, numbers, and underscores'')
     \<and> (\<exists>vd. new_Validator (registerRule (leafRule rt ''when'') (ruleRegistry rt)) nested_when_rules
               = Inr vd)"
proof
  fix rt
  have g: "getRule (registerRule (leafRule rt ''when'') (ruleRegistry rt)) ''when''
             = Some (leafRule rt ''when'')"
    by (simp add: getRule_def registerRule_def map_of_put handler_names)
  show "new_Validator (ruleRegistry rt) bad_then_nested_rules
          = Inl (InvalidRuleNameException (RStr ''Bad'')
              ''Rule name must start with a lowercase letter and contain only lowercase letters, numbers, and underscores'')
     \<and> (\<exists>vd. new_Validator (registerRule (leafRule rt ''when'') (ruleRegistry rt)) nested_when_rules
               = Inr vd)"
    by (simp add: parse_defs bad_then_nested_rules_def nested_when_rules_def g)
qed

theorem nested_conditional_rejected_witness:
  "\<forall>rt. getRule (ruleRegistry rt) ''when'' = None
     \<and> is_when (RArr [RStr ''when'', RArr [RStr ''@filled''], RArr []])
     \<and> mapM (parseSimpleRule (ruleRegistry rt)) [] = Inr []
     \<and> (''f'', snd (hd nested_when_rules)) \<in> set nested_when_rules
     \<and> hd (snd (hd nested_when_rules)) \<in> set (snd (hd nested_when_rules))
     \<and> has_nested_when (hd (snd (hd nested_when_rules)))
     \<and> parseSimpleRule (ruleRegistry rt) (RArr [RStr ''when'', RArr [RStr ''@filled''], RArr []])
          = Inl (UnknownRuleException ''when'')
     \<and> new_Validator (ruleRegistry rt) nested_when_rules = Inl (UnknownRuleException ''when'')
     \<and> (\<exists>e. new_Validator (ruleRegistry rt) nested_when_rules = Inl e)
     \<and> parseRules (ruleRegistry rt) [(''a'', [RStr ''required''])] = Inr [(''a'', [simple requiredRule])]
     \<and> mapM (parseRule (ruleRegistry rt)) [RStr ''string''] = Inr [simple stringRule]
     \<and> mapM (parseSimpleRule (ruleRegistry rt)) [RStr ''required'']
          = Inr [\<lparr> rule_name = ''required'', params = [], handler = requiredRule \<rparr>]
     \<and> mapM (parseSimpleRule (ruleRegistry rt)) [RStr ''string'']
          = Inr [\<lparr> rule_name = ''string'', params = [], handler = stringRule \<rparr>]
     \<and> new_Validator (ruleRegistry rt) nested_else_rules = Inl (UnknownRuleException ''when'')
     \<and> parseRules (ruleRegistry rt) [] = Inr []
     \<and> mapM (parseRule (ruleRegistry rt)) [] = Inr []
     \<and> mapM (parseSimpleRule (ruleRegistry rt)) [RStr ''Bad'']
          = Inl (InvalidRuleNameException (RStr ''Bad'')
              ''Rule name must start with a lowercase letter and contain only lowercase letters, numbers, and underscores'')
     \<and> new_Validator (ruleRegistry rt) bad_then_nested_rules
          = Inl (InvalidRuleNameException (RStr ''Bad'')
              ''Rule name must start with a lowercase letter and contain only lowercase letters, numbers, and underscores'')"
proof
  fix rt
  let ?reg = "ruleRegistry rt"
  let ?w = "RArr [RStr ''when'', RArr [RStr ''@filled''], RArr []]"
  let ?c = "RArr [RStr ''@filled'']"
  let ?bad = "InvalidRuleNameException (RStr ''Bad'')
              ''Rule name must start with a lowercase letter and contain only lowercase letters, numbers, and underscores''"
  have g: "getRule ?reg ''when'' = None" by (rule getRule_builtin)
  have w: "is_when ?w" by (simp add: is_when_def)
  have m: "mapM (parseSimpleRule ?reg) [] = Inr []" by simp
  have a: "(''f'', snd (hd nested_when_rules)) \<in> set nested_when_rules"
    "hd (snd (hd nested_when_rules)) \<in> set (snd (hd nested_when_rules))"
    "has_nested_when (hd (snd (hd nested_when_rules)))"
    by (simp_all add: nested_when_rules_def has_nested_when_def branch_items_def item_def is_when_def)
  have r: "nested_when_rules = [(''f'', [RArr (RStr ''when'' # ?c # RArr ([] @ ?w # []) # [])])]"
    by (simp add: nested_when_rules_def)
  have p: "parseRules ?reg [(''a'', [RStr ''required''])] = Inr [(''a'', [simple requiredRule])]"
    "mapM (parseRule ?reg) [RStr ''string''] = Inr [simple stringRule]"
    "mapM (parseSimpleRule ?reg) [RStr ''required'']
       = Inr [\<lparr> rule_name = ''required'', params = [], handler = requiredRule \<rparr>]"
    "mapM (parseSimpleRule ?reg) [RStr ''string'']
       = Inr [\<lparr> rule_name = ''string'', params = [], handler = stringRule \<rparr>]"
    "parseRules ?reg [] = Inr []" "mapM (parseRule ?reg) [] = Inr []"
    "mapM (parseSimpleRule ?reg) [RStr ''Bad''] = Inl ?bad"
    by (simp_all add: parse_defs getRule_builtin simple_def requiredRule_def stringRule_def)
  have re: "nested_else_rules
      = [(''a'', [RStr ''required''])]
        @ (''f'', [RStr ''string'']
             @ RArr (RStr ''when'' # ?c # RArr [RStr ''required''] # RArr ([RStr ''string''] @ ?w # []) # [])
             # []) # []"
    by (simp add: nested_else_rules_def)
  have rb: "bad_then_nested_rules
      = [] @ (''f'', [] @ RArr (RStr ''when'' # ?c # RArr ([RStr ''Bad''] @ [?w]) # []) # []) # []"
    by (simp add: bad_then_nested_rules_def)
  from nested_conditional_rejected [where reg = ?reg and w = ?w, THEN conjunct1] g w
  have 1: "parseSimpleRule ?reg ?w = Inl (UnknownRuleException ''when'')"
    by blast
  from nested_conditional_rejected [where reg = ?reg and w = ?w and pre = "[]" and ps = "[]"
      and post = "[]" and fld = "''f''" and c = ?c and ?tl3.0 = "[]", THEN conjunct2, THEN conjunct1] g w m
  have 2: "new_Validator ?reg nested_when_rules = Inl (UnknownRuleException ''when'')"
    unfolding r by blast
  from nested_conditional_rejected [where reg = ?reg and fld = "''f''"
      and frs = "snd (hd nested_when_rules)" and rs = nested_when_rules
      and r = "hd (snd (hd nested_when_rules))", THEN conjunct2, THEN conjunct2, THEN conjunct1] g a
  have 3: "\<exists>e. new_Validator ?reg nested_when_rules = Inl e" by blast
  from nested_conditional_rejected [where reg = ?reg and w = ?w and fpre = "[(''a'', [RStr ''required''])]"
      and acc = "[(''a'', [simple requiredRule])]"
      and ipre = "[RStr ''string'']" and its = "[simple stringRule]"
      and thens = "[RStr ''required'']"
      and ts = "[\<lparr> rule_name = ''required'', params = [], handler = requiredRule \<rparr>]"
      and epre = "[RStr ''string'']"
      and es = "[\<lparr> rule_name = ''string'', params = [], handler = stringRule \<rparr>]"
      and fld = "''f''" and c = ?c and epost = "[]" and ?tl4.0 = "[]" and ipost = "[]" and fpost = "[]",
      THEN conjunct2, THEN conjunct2, THEN conjunct2, THEN conjunct2, THEN conjunct2, THEN conjunct1]
    g w p
  have 4: "new_Validator ?reg nested_else_rules = Inl (UnknownRuleException ''when'')"
    unfolding re by blast
  from nested_conditional_rejected [where reg = ?reg and fpre = "[]" and acc = "[]" and ipre = "[]"
      and its = "[]" and tpre = "[RStr ''Bad'']" and trest = "[?w]" and e = ?bad
      and fld = "''f''" and c = ?c and ?tl3.0 = "[]" and ipost = "[]" and fpost = "[]",
      THEN conjunct2, THEN conjunct2, THEN conjunct2, THEN conjunct2, THEN conjunct2, THEN conjunct2, THEN conjunct2, THEN conjunct2, THEN conjunct1]
    p
  have 5: "new_Validator ?reg bad_then_nested_rules = Inl ?bad"
    unfolding rb by blast
  show "getRule (ruleRegistry rt) ''when'' = None
     \<and> is_when ?w
     \<and> mapM (parseSimpleRule (ruleRegistry rt)) [] = Inr []
     \<and> (''f'', snd (hd nested_when_rules)) \<in> set nested_when_rules
     \<and> hd (snd (hd nested_when_rules)) \<in> set (snd (hd nested_when_rules))
     \<and> has_nested_when (hd (snd (hd nested_when_rules)))
     \<and> parseSimpleRule (ruleRegistry rt) ?w = Inl (UnknownRuleException ''when'')
     \<and> new_Validator (ruleRegistry rt) nested_when_rules = Inl (UnknownRuleException ''when'')
     \<and> (\<exists>e. new_Validator (ruleRegistry rt) nested_when_rules = Inl e)
     \<and> parseRules (ruleRegistry rt) [(''a'', [RStr ''required''])] = Inr [(''a'', [simple requiredRule])]
     \<and> mapM (parseRule (ruleRegistry rt)) [RStr ''string''] = Inr [simple stringRule]
     \<and> mapM (parseSimpleRule (ruleRegistry rt)) [RStr ''required'']
          = Inr [\<lparr> rule_name = ''required'', params = [], handler = requiredRule \<rparr>]
     \<and> mapM (parseSimpleRule (ruleRegistry rt)) [RStr ''string'']
          = Inr [\<lparr> rule_name = ''string'', params = [], handler = stringRule \<rparr>]
     \<and> new_Validator (ruleRegistry rt) nested_else_rules = Inl (UnknownRuleException ''when'')
     \<and> parseRules (ruleRegistry rt) [] = Inr []
     \<and> mapM (parseRule (ruleRegistry rt)) [] = Inr []
     \<and> mapM (parseSimpleRule (ruleRegistry rt)) [RStr ''Bad''] = Inl ?bad
     \<and> new_Validator (ruleRegistry rt) bad_then_nested_rules = Inl ?bad"
    using g w m a 1 2 3 4 5 p by blast
qed

section \<open>Wildcard expansion\<close>



























section \<open>Ordering comparisons in conditions\<close>

lemma compare_strings:
  assumes "to_primitive rt h a = Str x" "spec_to_primitive rt b = Str y"
  shows "compare rt h a (RStr ''>'') b = str_lt y x"
    "compare rt h a (RStr ''<'') b = str_lt x y"
    "compare rt h a (RStr ''>='') b = (\<not> str_lt x y)"
    "compare rt h a (RStr ''<='') b = (\<not> str_lt y x)"
  using assms by (simp_all add: compare_def IsLessThan_def)

lemma num_lt_NaN: "num_lt NaN y = None" "num_lt x NaN = None"
  by (cases x; simp)+

lemma IsLessThan_NaN:
  assumes "\<not> (\<exists>x y. px = Str x \<and> py = Str y)" "ToNumber rt px = NaN \<or> ToNumber rt py = NaN"
  shows "IsLessThan rt px py = None" "IsLessThan rt py px = None"
  using assms by (auto simp: IsLessThan_def num_lt_NaN split: jsval.splits)

lemma compare_NaN:
  assumes "\<not> (\<exists>x y. to_primitive rt h a = Str x \<and> spec_to_primitive rt b = Str y)"
    "ToNumber rt (to_primitive rt h a) = NaN \<or> ToNumber rt (spec_to_primitive rt b) = NaN"
  shows "\<not> compare rt h a (RStr ''>'') b" "\<not> compare rt h a (RStr ''<'') b"
    "\<not> compare rt h a (RStr ''>='') b" "\<not> compare rt h a (RStr ''<='') b"
  using IsLessThan_NaN [OF assms] by (simp_all add: compare_def)

lemma field_condition_ordering:
  assumes "op \<in> {''>'', ''>='', ''<'', ''<=''}"
  shows "evaluateFieldCondition rt h fld [RStr op, e] d = compare rt h (get h d fld) (RStr op) e"
  using assms by (auto simp: evaluateFieldCondition_def item_def)

lemma IsLessThan_numbers:
  assumes "\<not> (\<exists>x y. px = Str x \<and> py = Str y)"
  shows "IsLessThan rt px py = num_lt (ToNumber rt px) (ToNumber rt py)"
    "IsLessThan rt py px = num_lt (ToNumber rt py) (ToNumber rt px)"
  using assms by (auto simp: IsLessThan_def split: jsval.splits)

lemma compare_numbers:
  assumes "\<not> (\<exists>x y. to_primitive rt h a = Str x \<and> spec_to_primitive rt b = Str y)"
  shows "compare rt h a (RStr ''>'') b
           = (num_lt (ToNumber rt (spec_to_primitive rt b)) (ToNumber rt (to_primitive rt h a)) = Some True)"
    "compare rt h a (RStr ''<'') b
           = (num_lt (ToNumber rt (to_primitive rt h a)) (ToNumber rt (spec_to_primitive rt b)) = Some True)"
    "compare rt h a (RStr ''>='') b
           = (num_lt (ToNumber rt (to_primitive rt h a)) (ToNumber rt (spec_to_primitive rt b)) = Some False)"
    "compare rt h a (RStr ''<='') b
           = (num_lt (ToNumber rt (spec_to_primitive rt b)) (ToNumber rt (to_primitive rt h a)) = Some False)"
  using IsLessThan_numbers [OF assms] by (simp_all add: compare_def)

lemma compare_finite:
  assumes "\<not> (\<exists>x y. to_primitive rt h a = Str x \<and> spec_to_primitive rt b = Str y)"
    "ToNumber rt (to_primitive rt h a) = Fin p" "ToNumber rt (spec_to_primitive rt b) = Fin q"
  shows "compare rt h a (RStr ''>'') b = (q < p)" "compare rt h a (RStr ''<'') b = (p < q)"
    "compare rt h a (RStr ''>='') b = (q \<le> p)" "compare rt h a (RStr ''<='') b = (p \<le> q)"
  using compare_numbers [OF assms(1)] assms(2,3) by auto

lemma num_lt_table:
  "num_lt (Fin p) (Fin q) = Some (p < q)"
  "num_lt NegInf (Fin q) = Some True" "num_lt (Fin p) NegInf = Some False"
  "num_lt (Fin p) PosInf = Some True" "num_lt PosInf (Fin q) = Some False"
  "num_lt NegInf PosInf = Some True" "num_lt PosInf NegInf = Some False"
  "num_lt PosInf PosInf = Some False" "num_lt NegInf NegInf = Some False"
  "num_lt NaN n = None" "num_lt n NaN = None"
  by (simp_all add: num_lt_NaN)

lemma conversions:
  "(\<forall>c. v \<noteq> Ref c) \<longrightarrow> to_primitive rt h v = v"
  "spec_to_primitive rt RUndef = Undefined" "spec_to_primitive rt RNull = Null"
  "spec_to_primitive rt (RBool t) = Bool t" "spec_to_primitive rt (RNum n) = Num n"
  "spec_to_primitive rt (RStr s) = Str s"
  "ToNumber rt Undefined = NaN" "ToNumber rt Null = Fin 0"
  "ToNumber rt (Bool True) = Fin 1" "ToNumber rt (Bool False) = Fin 0"
  "ToNumber rt (Num n) = n" "ToNumber rt (Str s) = StringToNumber rt s"
  by (simp_all add: to_primitive_def spec_to_primitive_def ToNumber_def split: jsval.splits)

lemma condition_ordering:
  assumes "op \<in> {''>'', ''>='', ''<'', ''<=''}" "fld \<noteq> ''and''" "fld \<noteq> ''or''" "take 1 fld \<noteq> ''@''"
  shows "evaluateCondition rt h (RArr [RStr fld, RStr op, e]) cv d
           = compare rt h (get h d fld) (RStr op) e"
  using assms field_condition_ordering [OF assms(1)] by simp

text \<open>
  Claim C7. The four ordering operators apply the relational operators of the host to
  the two values as they are. When both sides are strings they are compared as
  strings, by code units. Otherwise both sides are converted to numbers and compared
  as numbers: two finite numbers by their order, the infinities below and above them,
  and when one of the two is \<open>NaN\<close> all four comparisons are false. \<open>undefined\<close>
  converts to \<open>NaN\<close>, \<open>null\<close> to \<open>0\<close>, \<open>false\<close> and \<open>true\<close> to \<open>0\<close> and \<open>1\<close>, a number to
  itself and a string to the number the host reads in it. A field condition with an
  ordering operator is this comparison on the value read at the field's path.
\<close>

theorem ordering_comparison:
  "(to_primitive rt h a = Str x \<and> spec_to_primitive rt b = Str y \<longrightarrow>
      compare rt h a (RStr ''>'') b = str_lt y x
    \<and> compare rt h a (RStr ''<'') b = str_lt x y
    \<and> compare rt h a (RStr ''>='') b = (\<not> str_lt x y)
    \<and> compare rt h a (RStr ''<='') b = (\<not> str_lt y x))
   \<and> (\<not> (\<exists>x y. to_primitive rt h a = Str x \<and> spec_to_primitive rt b = Str y)
      \<and> (ToNumber rt (to_primitive rt h a) = NaN \<or> ToNumber rt (spec_to_primitive rt b) = NaN) \<longrightarrow>
      \<not> compare rt h a (RStr ''>'') b \<and> \<not> compare rt h a (RStr ''<'') b
    \<and> \<not> compare rt h a (RStr ''>='') b \<and> \<not> compare rt h a (RStr ''<='') b)
   \<and> (op \<in> {''>'', ''>='', ''<'', ''<=''} \<longrightarrow>
        evaluateFieldCondition rt h fld [RStr op, e] d = compare rt h (get h d fld) (RStr op) e)
   \<and> ToNumber rt Undefined = NaN \<and> ToNumber rt Null = Fin 0
   \<and> (\<not> (\<exists>x y. to_primitive rt h a = Str x \<and> spec_to_primitive rt b = Str y) \<longrightarrow>
        compare rt h a (RStr ''>'') b
          = (num_lt (ToNumber rt (spec_to_primitive rt b)) (ToNumber rt (to_primitive rt h a)) = Some True)
      \<and> compare rt h a (RStr ''<'') b
          = (num_lt (ToNumber rt (to_primitive rt h a)) (ToNumber rt (spec_to_primitive rt b)) = Some True)
      \<and> compare rt h a (RStr ''>='') b
          = (num_lt (ToNumber rt (to_primitive rt h a)) (ToNumber rt (spec_to_primitive rt b)) = Some False)
      \<and> compare rt h a (RStr ''<='') b
          = (num_lt (ToNumber rt (spec_to_primitive rt b)) (ToNumber rt (to_primitive rt h a)) = Some False))
   \<and> (\<not> (\<exists>x y. to_primitive rt h a = Str x \<and> spec_to_primitive rt b = Str y)
      \<and> ToNumber rt (to_primitive rt h a) = Fin p \<and> ToNumber rt (spec_to_primitive rt b) = Fin q \<longrightarrow>
        compare rt h a (RStr ''>'') b = (q < p) \<and> compare rt h a (RStr ''<'') b = (p < q)
      \<and> compare rt h a (RStr ''>='') b = (q \<le> p) \<and> compare rt h a (RStr ''<='') b = (p \<le> q))
   \<and> num_lt (Fin p) (Fin q) = Some (p < q)
   \<and> num_lt NegInf (Fin q) = Some True \<and> num_lt (Fin p) NegInf = Some False
   \<and> num_lt (Fin p) PosInf = Some True \<and> num_lt PosInf (Fin q) = Some False
   \<and> num_lt NegInf PosInf = Some True \<and> num_lt PosInf NegInf = Some False
   \<and> num_lt PosInf PosInf = Some False \<and> num_lt NegInf NegInf = Some False
   \<and> num_lt NaN n = None \<and> num_lt n NaN = None
   \<and> ((\<forall>c. v \<noteq> Ref c) \<longrightarrow> to_primitive rt h v = v)
   \<and> spec_to_primitive rt RUndef = Undefined \<and> spec_to_primitive rt RNull = Null
   \<and> spec_to_primitive rt (RBool t) = Bool t \<and> spec_to_primitive rt (RNum n) = Num n
   \<and> spec_to_primitive rt (RStr s) = Str s
   \<and> ToNumber rt (Bool True) = Fin 1 \<and> ToNumber rt (Bool False) = Fin 0
   \<and> ToNumber rt (Num n) = n \<and> ToNumber rt (Str s) = StringToNumber rt s
   \<and> (op \<in> {''>'', ''>='', ''<'', ''<=''} \<and> fld \<noteq> ''and'' \<and> fld \<noteq> ''or'' \<and> take 1 fld \<noteq> ''@'' \<longrightarrow>
        evaluateCondition rt h (RArr [RStr fld, RStr op, e]) cv d
          = compare rt h (get h d fld) (RStr op) e)"
proof -
  have g1: "(to_primitive rt h a = Str x \<and> spec_to_primitive rt b = Str y \<longrightarrow>
      compare rt h a (RStr ''>'') b = str_lt y x
    \<and> compare rt h a (RStr ''<'') b = str_lt x y
    \<and> compare rt h a (RStr ''>='') b = (\<not> str_lt x y)
    \<and> compare rt h a (RStr ''<='') b = (\<not> str_lt y x))
   \<and> (\<not> (\<exists>x y. to_primitive rt h a = Str x \<and> spec_to_primitive rt b = Str y)
      \<and> (ToNumber rt (to_primitive rt h a) = NaN \<or> ToNumber rt (spec_to_primitive rt b) = NaN) \<longrightarrow>
      \<not> compare rt h a (RStr ''>'') b \<and> \<not> compare rt h a (RStr ''<'') b
    \<and> \<not> compare rt h a (RStr ''>='') b \<and> \<not> compare rt h a (RStr ''<='') b)
   \<and> (op \<in> {''>'', ''>='', ''<'', ''<=''} \<longrightarrow>
        evaluateFieldCondition rt h fld [RStr op, e] d = compare rt h (get h d fld) (RStr op) e)
   \<and> ToNumber rt Undefined = NaN \<and> ToNumber rt Null = Fin 0"
    using compare_strings [of rt h a x b y] compare_NaN [of rt h a b]
      field_condition_ordering [of op rt h fld e d]
    by (simp add: ToNumber_def)
  have g2: "\<not> (\<exists>x y. to_primitive rt h a = Str x \<and> spec_to_primitive rt b = Str y) \<longrightarrow>
        compare rt h a (RStr ''>'') b
          = (num_lt (ToNumber rt (spec_to_primitive rt b)) (ToNumber rt (to_primitive rt h a)) = Some True)
      \<and> compare rt h a (RStr ''<'') b
          = (num_lt (ToNumber rt (to_primitive rt h a)) (ToNumber rt (spec_to_primitive rt b)) = Some True)
      \<and> compare rt h a (RStr ''>='') b
          = (num_lt (ToNumber rt (to_primitive rt h a)) (ToNumber rt (spec_to_primitive rt b)) = Some False)
      \<and> compare rt h a (RStr ''<='') b
          = (num_lt (ToNumber rt (spec_to_primitive rt b)) (ToNumber rt (to_primitive rt h a)) = Some False)"
    using compare_numbers [of rt h a b] by blast
  have g3: "\<not> (\<exists>x y. to_primitive rt h a = Str x \<and> spec_to_primitive rt b = Str y)
      \<and> ToNumber rt (to_primitive rt h a) = Fin p \<and> ToNumber rt (spec_to_primitive rt b) = Fin q \<longrightarrow>
        compare rt h a (RStr ''>'') b = (q < p) \<and> compare rt h a (RStr ''<'') b = (p < q)
      \<and> compare rt h a (RStr ''>='') b = (q \<le> p) \<and> compare rt h a (RStr ''<='') b = (p \<le> q)"
    using compare_finite [of rt h a b p q] by blast
  have g4: "num_lt (Fin p) (Fin q) = Some (p < q)
   \<and> num_lt NegInf (Fin q) = Some True \<and> num_lt (Fin p) NegInf = Some False
   \<and> num_lt (Fin p) PosInf = Some True \<and> num_lt PosInf (Fin q) = Some False
   \<and> num_lt NegInf PosInf = Some True \<and> num_lt PosInf NegInf = Some False
   \<and> num_lt PosInf PosInf = Some False \<and> num_lt NegInf NegInf = Some False
   \<and> num_lt NaN n = None \<and> num_lt n NaN = None"
    by (simp add: num_lt_NaN)
  have g5: "((\<forall>c. v \<noteq> Ref c) \<longrightarrow> to_primitive rt h v = v)
   \<and> spec_to_primitive rt RUndef = Undefined \<and> spec_to_primitive rt RNull = Null
   \<and> spec_to_primitive rt (RBool t) = Bool t \<and> spec_to_primitive rt (RNum n) = Num n
   \<and> spec_to_primitive rt (RStr s) = Str s
   \<and> ToNumber rt (Bool True) = Fin 1 \<and> ToNumber rt (Bool False) = Fin 0
   \<and> ToNumber rt (Num n) = n \<and> ToNumber rt (Str s) = StringToNumber rt s"
    by (intro conjI) (rule conversions)+
  have g6: "op \<in> {''>'', ''>='', ''<'', ''<=''} \<and> fld \<noteq> ''and'' \<and> fld \<noteq> ''or'' \<and> take 1 fld \<noteq> ''@'' \<longrightarrow>
        evaluateCondition rt h (RArr [RStr fld, RStr op, e]) cv d
          = compare rt h (get h d fld) (RStr op) e"
    using condition_ordering [of op fld rt h e cv d] by blast
  show ?thesis
    apply (insert g1 g2 g3 g4 g5 g6)
    apply (elim conjE)
    apply (intro conjI; assumption)
    done
qed

text \<open>
  Two ordering conditions on values that are not numbers hold: the string \<open>"b"\<close> is
  greater than \<open>"a"\<close>, and \<open>null\<close> is greater than \<open>-1\<close>.
\<close>

theorem ordering_on_non_numbers:
  "\<forall>rt. evaluateCondition rt [JSObj None [(''f'', Str ''b'')]]
           (RArr [RStr ''f'', RStr ''>'', RStr ''a'']) Undefined (Ref 0)
     \<and> evaluateCondition rt [JSObj None [(''f'', Null)]]
           (RArr [RStr ''f'', RStr ''>'', RNum (Fin (- 1))]) Undefined (Ref 0)"
  by (simp add: evaluateFieldCondition_def item_def compare_def IsLessThan_def ToNumber_def
        to_primitive_def spec_to_primitive_def get_def prop_get_def obj_at_def)

theorem ordering_comparison_witness:
  "\<forall>rt. to_primitive rt [] (Str ''b'') = Str ''b'' \<and> spec_to_primitive rt (RStr ''a'') = Str ''a''
     \<and> compare rt [] (Str ''b'') (RStr ''>'') (RStr ''a'')
     \<and> \<not> (\<exists>x y. to_primitive rt [] Undefined = Str x \<and> spec_to_primitive rt (RNum (Fin 5)) = Str y)
     \<and> ToNumber rt (to_primitive rt [] Undefined) = NaN
     \<and> \<not> compare rt [] Undefined (RStr ''>'') (RNum (Fin 5))
     \<and> \<not> compare rt [] Undefined (RStr ''<='') (RNum (Fin 5))
     \<and> ''>='' \<in> {''>'', ''>='', ''<'', ''<=''}
     \<and> evaluateFieldCondition rt [] ''q'' [RStr ''>='', RNum (Fin 10)] (Ref 0)
         = compare rt [] (get [] (Ref 0) ''q'') (RStr ''>='') (RNum (Fin 10))
     \<and> \<not> (\<exists>x y. to_primitive rt [] Null = Str x \<and> spec_to_primitive rt (RNum (Fin (- 1))) = Str y)
     \<and> ToNumber rt (to_primitive rt [] Null) = Fin 0
     \<and> ToNumber rt (spec_to_primitive rt (RNum (Fin (- 1)))) = Fin (- 1)
     \<and> compare rt [] Null (RStr ''>'') (RNum (Fin (- 1)))
     \<and> compare rt [] Null (RStr ''>='') (RNum (Fin (- 1)))
     \<and> \<not> compare rt [] Null (RStr ''<'') (RNum (Fin (- 1)))
     \<and> \<not> compare rt [] Null (RStr ''<='') (RNum (Fin (- 1)))
     \<and> compare rt [] (Bool True) (RStr ''>='') (RNum (Fin 1))
     \<and> evaluateCondition rt [JSObj None [(''age'', Num (Fin 20))]]
          (RArr [RStr ''age'', RStr ''>='', RNum (Fin 18)]) Undefined (Ref 0)"
proof
  fix rt
  have a: "to_primitive rt [] (Str ''b'') = Str ''b''" "spec_to_primitive rt (RStr ''a'') = Str ''a''"
    by (simp_all add: to_primitive_def spec_to_primitive_def)
  have b: "\<not> (\<exists>x y. to_primitive rt [] Undefined = Str x \<and> spec_to_primitive rt (RNum (Fin 5)) = Str y)"
    "ToNumber rt (to_primitive rt [] Undefined) = NaN"
    by (simp_all add: to_primitive_def spec_to_primitive_def ToNumber_def)
  have c: "''>='' \<in> {''>'', ''>='', ''<'', ''<=''}" by simp
  have s: "str_lt ''a'' ''b''" by simp
  have n: "\<not> (\<exists>x y. to_primitive rt [] Null = Str x \<and> spec_to_primitive rt (RNum (Fin (- 1))) = Str y)"
    "ToNumber rt (to_primitive rt [] Null) = Fin 0"
    "ToNumber rt (spec_to_primitive rt (RNum (Fin (- 1)))) = Fin (- 1)"
    by (simp_all add: to_primitive_def spec_to_primitive_def ToNumber_def)
  have t: "\<not> (\<exists>x y. to_primitive rt [] (Bool True) = Str x \<and> spec_to_primitive rt (RNum (Fin 1)) = Str y)"
    "ToNumber rt (to_primitive rt [] (Bool True)) = Fin 1"
    "ToNumber rt (spec_to_primitive rt (RNum (Fin 1))) = Fin 1"
    by (simp_all add: to_primitive_def spec_to_primitive_def ToNumber_def)
  let ?hp = "[JSObj None [(''age'', Num (Fin 20))]]"
  have g: "get ?hp (Ref 0) ''age'' = Num (Fin 20)"
    by (simp add: get_def prop_get_def obj_at_def)
  have u: "\<not> (\<exists>x y. to_primitive rt ?hp (Num (Fin 20)) = Str x \<and> spec_to_primitive rt (RNum (Fin 18)) = Str y)"
    "ToNumber rt (to_primitive rt ?hp (Num (Fin 20))) = Fin 20"
    "ToNumber rt (spec_to_primitive rt (RNum (Fin 18))) = Fin 18"
    by (simp_all add: to_primitive_def spec_to_primitive_def ToNumber_def)
  have k: "''age'' \<noteq> ''and''" "''age'' \<noteq> ''or''" "take 1 ''age'' \<noteq> ''@''" by simp_all
  from ordering_comparison [of rt "[]" "Str ''b''" "''b''" "RStr ''a''" "''a''"] a s
  have 1: "compare rt [] (Str ''b'') (RStr ''>'') (RStr ''a'')" by simp
  from ordering_comparison [of rt "[]" Undefined _ "RNum (Fin 5)"] b
  have 2: "\<not> compare rt [] Undefined (RStr ''>'') (RNum (Fin 5))"
    "\<not> compare rt [] Undefined (RStr ''<='') (RNum (Fin 5))" by blast+
  from ordering_comparison [of rt "[]" Undefined _ "RNum (Fin 5)" _ "''>=''" "''q''" "RNum (Fin 10)" "Ref 0"] c
  have 3: "evaluateFieldCondition rt [] ''q'' [RStr ''>='', RNum (Fin 10)] (Ref 0)
         = compare rt [] (get [] (Ref 0) ''q'') (RStr ''>='') (RNum (Fin 10))" by blast
  from ordering_comparison [where rt = rt and h = "[]" and a = Null and b = "RNum (Fin (- 1))"
      and p = 0 and q = "- 1"] n
  have 4: "compare rt [] Null (RStr ''>'') (RNum (Fin (- 1)))"
    "compare rt [] Null (RStr ''>='') (RNum (Fin (- 1)))"
    "\<not> compare rt [] Null (RStr ''<'') (RNum (Fin (- 1)))"
    "\<not> compare rt [] Null (RStr ''<='') (RNum (Fin (- 1)))"
    by simp_all
  from ordering_comparison [where rt = rt and h = "[]" and a = "Bool True" and b = "RNum (Fin 1)"
      and p = 1 and q = 1] t
  have 5: "compare rt [] (Bool True) (RStr ''>='') (RNum (Fin 1))" by simp
  from ordering_comparison [where rt = rt and h = ?hp and a = "Num (Fin 20)" and b = "RNum (Fin 18)"
      and p = 20 and q = 18 and op = "''>=''" and fld = "''age''" and e = "RNum (Fin 18)"
      and cv = Undefined and d = "Ref 0"] u c k g
  have 6: "evaluateCondition rt ?hp (RArr [RStr ''age'', RStr ''>='', RNum (Fin 18)]) Undefined (Ref 0)"
    by simp
  show "to_primitive rt [] (Str ''b'') = Str ''b'' \<and> spec_to_primitive rt (RStr ''a'') = Str ''a''
     \<and> compare rt [] (Str ''b'') (RStr ''>'') (RStr ''a'')
     \<and> \<not> (\<exists>x y. to_primitive rt [] Undefined = Str x \<and> spec_to_primitive rt (RNum (Fin 5)) = Str y)
     \<and> ToNumber rt (to_primitive rt [] Undefined) = NaN
     \<and> \<not> compare rt [] Undefined (RStr ''>'') (RNum (Fin 5))
     \<and> \<not> compare rt [] Undefined (RStr ''<='') (RNum (Fin 5))
     \<and> ''>='' \<in> {''>'', ''>='', ''<'', ''<=''}
     \<and> evaluateFieldCondition rt [] ''q'' [RStr ''>='', RNum (Fin 10)] (Ref 0)
         = compare rt [] (get [] (Ref 0) ''q'') (RStr ''>='') (RNum (Fin 10))
     \<and> \<not> (\<exists>x y. to_primitive rt [] Null = Str x \<and> spec_to_primitive rt (RNum (Fin (- 1))) = Str y)
     \<and> ToNumber rt (to_primitive rt [] Null) = Fin 0
     \<and> ToNumber rt (spec_to_primitive rt (RNum (Fin (- 1)))) = Fin (- 1)
     \<and> compare rt [] Null (RStr ''>'') (RNum (Fin (- 1)))
     \<and> compare rt [] Null (RStr ''>='') (RNum (Fin (- 1)))
     \<and> \<not> compare rt [] Null (RStr ''<'') (RNum (Fin (- 1)))
     \<and> \<not> compare rt [] Null (RStr ''<='') (RNum (Fin (- 1)))
     \<and> compare rt [] (Bool True) (RStr ''>='') (RNum (Fin 1))
     \<and> evaluateCondition rt [JSObj None [(''age'', Num (Fin 20))]]
          (RArr [RStr ''age'', RStr ''>='', RNum (Fin 18)]) Undefined (Ref 0)"
    using a b c n 1 2 3 4 5 6 by blast
qed

section \<open>What validate writes\<close>


lemma walk_not_ref: "\<not> is_object cur \<Longrightarrow> xs \<noteq> [] \<Longrightarrow> walk hp cur xs = Undefined"
  by (cases xs; cases cur) (simp_all add: is_object_def)



lemma walk_view:
  "(\<And>a k. prop_get hp' a k = prop_get hp a k) \<Longrightarrow> walk hp' cur xs = walk hp cur xs"
  by (induction xs arbitrary: cur) (auto split: jsval.splits)















































section \<open>The result of validate\<close>

















end
